theory Spec2Isabelle
  imports Complex_Main
begin

section \<open>Python values and exceptions\<close>

text \<open>
  The module \<^verbatim>\<open>screw_maker.py\<close> computes with Python floats. They are modelled as
  \<^typ>\<open>real\<close>: every arithmetic operation is the exact one, rounding is not modelled.
  Exceptions are values of \<open>error\<close>; a function that may raise returns \<open>error + 'a\<close>.
\<close>

datatype error =
    ValueError
  | TypeError
  | ZeroDivisionError
  | IndexError
  | KeyError
  | RuntimeError string

datatype pyval = PyInt int | PyFloat real | PyStr string | PyBool bool | PyNone

text \<open>Module constants: \<^verbatim>\<open>sqrt3 = math.sqrt(3)\<close>, \<^verbatim>\<open>cos30 = math.cos(math.radians(30))\<close>.\<close>

definition radians :: "real \<Rightarrow> real" where
  "radians x = x * pi / 180"

definition sqrt3 :: real where
  "sqrt3 = sqrt 3"

definition cos30 :: real where
  "cos30 = cos (radians 30)"

text \<open>The attributes set by \<^verbatim>\<open>Screw.__init__\<close>.\<close>

record Screw =
  objAvailable :: bool
  Tuner :: real
  leftHanded :: bool
  sm3DPrintMode :: bool
  smNutThrScaleA :: real
  smNutThrScaleB :: real
  smScrewThrScaleA :: real
  smScrewThrScaleB :: real

definition Screw_init :: Screw where
  "Screw_init =
     \<lparr> objAvailable = True, Tuner = 510, leftHanded = False, sm3DPrintMode = False,
       smNutThrScaleA = 1.0, smNutThrScaleB = 0.0,
       smScrewThrScaleA = 1.0, smScrewThrScaleB = 0.0 \<rparr>"

section \<open>Minimum bore of an inner thread\<close>

text \<open>
  \<^verbatim>\<open>def GetInnerThreadMinDiameter(self, dia, P, addEpsilon = 0.001)\<close>; the variant
  \<open>GetInnerThreadMinDiameter_default\<close> is the call that omits \<^verbatim>\<open>addEpsilon\<close>.
\<close>

definition GetInnerThreadMinDiameter :: "Screw \<Rightarrow> real \<Rightarrow> real \<Rightarrow> real \<Rightarrow> real" where
  "GetInnerThreadMinDiameter self dia P addEpsilon =
     (let H = P * cos30 in dia - H * 5.0 / 4.0 + addEpsilon)"

definition GetInnerThreadMinDiameter_default :: "Screw \<Rightarrow> real \<Rightarrow> real \<Rightarrow> real" where
  "GetInnerThreadMinDiameter_default self dia P = GetInnerThreadMinDiameter self dia P 0.001"

section \<open>Length resolution\<close>

subsection \<open>The string operations of Python that \<^verbatim>\<open>getLength\<close> uses\<close>

text \<open>\<^verbatim>\<open>sub in s\<close> on strings: \<open>sub\<close> occurs in \<open>s\<close> as a contiguous block.\<close>

fun py_in_str :: "string \<Rightarrow> string \<Rightarrow> bool" where
  "py_in_str sub [] = (sub = [])"
| "py_in_str sub (c # cs) = (take (length sub) (c # cs) = sub \<or> py_in_str sub cs)"

text \<open>\<^verbatim>\<open>s.strip(chars)\<close>: drops from both ends every character that is in \<open>chars\<close>.\<close>

definition py_strip :: "string \<Rightarrow> string \<Rightarrow> string" where
  "py_strip chars s =
     rev (dropWhile (\<lambda>c. c \<in> set chars) (rev (dropWhile (\<lambda>c. c \<in> set chars) s)))"

text \<open>
  \<^verbatim>\<open>s.split(sep)\<close> for a separator of one character: the pieces between the
  separators, empty pieces included, so the result is never the empty list.
\<close>

fun py_split :: "char \<Rightarrow> string \<Rightarrow> string list" where
  "py_split sep [] = [[]]"
| "py_split sep (c # cs) =
     (if c = sep then [] # py_split sep cs
      else (case py_split sep cs of
              [] \<Rightarrow> [[c]]
            | w # ws \<Rightarrow> (c # w) # ws))"

text \<open>
  \<^verbatim>\<open>float(s)\<close> on a string. The model covers the finite decimal literals: surrounding
  whitespace, an optional sign, digits with an optional point (at least one digit), and
  an optional exponent. Any other string is a \<open>ValueError\<close>; the literals
  \<^verbatim>\<open>inf\<close>, \<^verbatim>\<open>nan\<close> and digit groups with underscores, which Python also accepts, have
  no value in \<^typ>\<open>real\<close> and are left out of the model.
\<close>

definition is_digit :: "char \<Rightarrow> bool" where
  "is_digit c = (c \<in> set ''0123456789'')"

definition digit_val :: "char \<Rightarrow> nat" where
  "digit_val c = of_char c - 48"

definition digits_val :: "string \<Rightarrow> nat" where
  "digits_val ds = foldl (\<lambda>a c. 10 * a + digit_val c) 0 ds"

definition py_whitespace :: string where
  "py_whitespace = [CHR '' '', CHR 0x09, CHR 0x0A, CHR 0x0B, CHR 0x0C, CHR 0x0D]"

definition parse_mantissa :: "string \<Rightarrow> (nat \<times> nat) option" where
  "parse_mantissa m =
     (let ip = takeWhile is_digit m; r = dropWhile is_digit m in
      (case r of
         [] \<Rightarrow> (if ip = [] then None else Some (digits_val ip, 0))
       | c # fp \<Rightarrow>
           (if c = CHR ''.'' \<and> list_all is_digit fp \<and> ip @ fp \<noteq> []
            then Some (digits_val (ip @ fp), length fp) else None)))"

definition parse_exponent :: "string \<Rightarrow> int option" where
  "parse_exponent e =
     (case e of
        [] \<Rightarrow> Some 0
      | c # r \<Rightarrow>
          (let (neg, ds) = (case r of
                              [] \<Rightarrow> (False, r)
                            | s # r' \<Rightarrow> (if s = CHR ''-'' then (True, r')
                                         else if s = CHR ''+'' then (False, r')
                                         else (False, r)))
           in if ds \<noteq> [] \<and> list_all is_digit ds
              then Some (if neg then - int (digits_val ds) else int (digits_val ds))
              else None))"

definition py_float :: "string \<Rightarrow> error + real" where
  "py_float s =
     (let s1 = py_strip py_whitespace s;
          (neg, s2) = (case s1 of
                         [] \<Rightarrow> (False, s1)
                       | c # r \<Rightarrow> (if c = CHR ''-'' then (True, r)
                                   else if c = CHR ''+'' then (False, r)
                                   else (False, s1)));
          m = takeWhile (\<lambda>c. c \<noteq> CHR ''e'' \<and> c \<noteq> CHR ''E'') s2;
          e = dropWhile (\<lambda>c. c \<noteq> CHR ''e'' \<and> c \<noteq> CHR ''E'') s2
      in (case (parse_mantissa m, parse_exponent e) of
            (Some (n, k), Some x) \<Rightarrow>
              (let v = real n / 10 ^ k * (if 0 \<le> x then 10 ^ nat x else 1 / 10 ^ nat (- x))
               in Inr (if neg then - v else v))
          | _ \<Rightarrow> Inl ValueError))"

subsection \<open>\<^verbatim>\<open>Screw.getLength\<close>\<close>

text \<open>
  One term of an inch expression: \<^verbatim>\<open>float(subcmpts[0]) / float(subcmpts[1])\<close> when the
  item holds a slash (pieces after the second are ignored, a zero denominator raises
  \<open>ZeroDivisionError\<close>), \<^verbatim>\<open>float(item)\<close> otherwise.
\<close>

definition inch_item :: "string \<Rightarrow> error + real" where
  "inch_item item =
     (if CHR ''/'' \<in> set item then
        (case py_split (CHR ''/'') item of
           a # b # _ \<Rightarrow>
             (case py_float a of
                Inl err \<Rightarrow> Inl err
              | Inr x \<Rightarrow>
                  (case py_float b of
                     Inl err \<Rightarrow> Inl err
                   | Inr y \<Rightarrow> if y = 0 then Inl ZeroDivisionError else Inr (x / y)))
         | _ \<Rightarrow> Inl IndexError)
      else py_float item)"

text \<open>The loop \<^verbatim>\<open>for item in components: total += ...\<close>, stopping at the first exception.\<close>

fun inch_total :: "real \<Rightarrow> string list \<Rightarrow> error + real" where
  "inch_total tot [] = Inr tot"
| "inch_total tot (item # items) =
     (case inch_item item of
        Inl err \<Rightarrow> Inl err
      | Inr v \<Rightarrow> inch_total (tot + v) items)"

text \<open>
  \<^verbatim>\<open>type(LenStr) == int\<close> holds for an \<^verbatim>\<open>int\<close> only (not for a \<^verbatim>\<open>bool\<close>); on any
  other value that is not a string the test \<^verbatim>\<open>'in' not in LenStr\<close> raises \<open>TypeError\<close>.
\<close>

fun getLength :: "Screw \<Rightarrow> pyval \<Rightarrow> error + pyval" where
  "getLength self (PyInt L) = Inr (PyInt L)"
| "getLength self (PyStr LenStr) =
     (if \<not> py_in_str ''in'' LenStr then
        (case py_float LenStr of
           Inl err \<Rightarrow> Inl err
         | Inr LenFloat \<Rightarrow> Inr (PyFloat LenFloat))
      else
        (let components = py_split (CHR '' '') (py_strip ''in'' LenStr) in
         (case inch_total 0 components of
            Inl err \<Rightarrow> Inl err
          | Inr tot \<Rightarrow> Inr (PyFloat (tot * 25.4)))))"
| "getLength self _ = Inl TypeError"

text \<open>A non-empty string of decimal digits.\<close>

definition digit_string :: "string \<Rightarrow> bool" where
  "digit_string ds = (ds \<noteq> [] \<and> list_all is_digit ds)"

section \<open>The geometry kernel\<close>

text \<open>
  The B-rep kernel (the \<^verbatim>\<open>Part\<close> module of the CAD host) is not part of the repository.
  A shape is modelled by the term of the kernel calls that built it, so a result shows
  which operations were applied, to what, and in which order. What the code reads back
  from the kernel (whether a sweep is ready, the faces, edges and vertices of a shape,
  the map of a general fuse) is a field of the record \<open>kernel\<close>: every theorem below
  holds for every kernel. An in-place method such as \<^verbatim>\<open>s.translate(v)\<close> is the term
  \<open>Translate v s\<close> bound to the same name again. An exception raised inside the kernel
  itself is not modelled, except the readiness of a sweep, which the code tests.
\<close>

type_synonym vec = "real \<times> real \<times> real"

text \<open>
  Modelled from the spec: \<^verbatim>\<open>FastenerBase.FSFaceMaker\<close>, the profile builder, is not under
  src/. The spec describes it as constructing closed or open planar cross-section curves
  from 2D points and arcs in the (radius, axial) plane. The model keeps the list of
  points and arcs added so far; \<^verbatim>\<open>Reset\<close> empties it and \<^verbatim>\<open>StartPoint\<close> starts a new
  profile at a point.
\<close>

datatype profile_cmd = Point real real | Arc real real real real

type_synonym FSFaceMaker = "profile_cmd list"

definition AddPoint :: "FSFaceMaker \<Rightarrow> real \<Rightarrow> real \<Rightarrow> FSFaceMaker" where
  "AddPoint fm x z = fm @ [Point x z]"

definition AddPoints :: "FSFaceMaker \<Rightarrow> (real \<times> real) list \<Rightarrow> FSFaceMaker" where
  "AddPoints fm pts = fm @ map (\<lambda>(x, z). Point x z) pts"

definition AddArc :: "FSFaceMaker \<Rightarrow> real \<Rightarrow> real \<Rightarrow> real \<Rightarrow> real \<Rightarrow> FSFaceMaker" where
  "AddArc fm x1 z1 x2 z2 = fm @ [Arc x1 z1 x2 z2]"


datatype shape =
    MakeLongHelix real real real real bool
  | GetWire FSFaceMaker
  | GetClosedWire FSFaceMaker
  | GetFace FSFaceMaker
  | Translate vec shape
  | Rotate vec vec real shape
  | Wire "shape list"
  | MakePipeShell shape bool nat "shape list"
  | SweepSolid shape
  | WirePipeShell shape "shape list" bool bool
  | Revolve shape vec vec real
  | MakeSolid shape
  | Solid shape
  | Shell "shape list"
  | Face shape
  | Reverse shape
  | Cut shape shape
  | Common shape shape
  | MakeBox real real real
  | MakePolygon "vec list"
  | ArcEdge vec vec vec
  | Extrude shape vec
  | GeneralFuse shape "shape list" real
  | Sub shape nat

text \<open>
  \<open>MakeLongHelix pitch height radius angle leftHanded\<close> is \<^verbatim>\<open>Part.makeLongHelix\<close>;
  \<open>MakePipeShell path frenet transition profiles\<close> is a \<^verbatim>\<open>BRepOffsetAPI.MakePipeShell\<close>
  on \<open>path\<close> after \<^verbatim>\<open>setFrenetMode\<close>, \<^verbatim>\<open>setTransitionMode\<close> and \<^verbatim>\<open>add\<close>, and
  \<open>SweepSolid sweep\<close> its \<^verbatim>\<open>shape()\<close> after \<^verbatim>\<open>build()\<close> and \<^verbatim>\<open>makeSolid()\<close>;
  \<open>WirePipeShell path profiles makeSolid isFrenet\<close> is \<^verbatim>\<open>Part.Wire(path).makePipeShell\<close>.
  \<open>ArcEdge p0 p1 p2\<close> is \<^verbatim>\<open>Part.Arc(p0, p1, p2).toShape()\<close>.
  \<open>Sub s i\<close> is a name for a piece of \<open>s\<close> that a kernel may hand out.
\<close>

record kernel =
  isReady :: "shape \<Rightarrow> bool"
  Faces :: "shape \<Rightarrow> shape list"
  Edges :: "shape \<Rightarrow> shape list"
  Vertexes :: "shape \<Rightarrow> vec list"
  CenterOfMass :: "shape \<Rightarrow> vec"
  generalFuse :: "shape \<Rightarrow> shape list \<Rightarrow> real \<Rightarrow> shape list list"
  sortEdges :: "shape list \<Rightarrow> shape list"

text \<open>\<^verbatim>\<open>xs[i]\<close> for a non-negative index: \<open>IndexError\<close> out of range.\<close>

definition py_index :: "'a list \<Rightarrow> nat \<Rightarrow> error + 'a" where
  "py_index xs i = (if i < length xs then Inr (xs ! i) else Inl IndexError)"

definition RevolveZ :: "Screw \<Rightarrow> shape \<Rightarrow> real \<Rightarrow> shape" where
  "RevolveZ self profile angle = Revolve profile (0, 0, 0) (0, 0, 1) angle"

section \<open>The external thread cutter\<close>

text \<open>The locals of \<^verbatim>\<open>Screw.CreateThreadCutter\<close>, in the order of the source.\<close>

definition trotations :: "real \<Rightarrow> real \<Rightarrow> real" where
  "trotations P blen = of_int \<lfloor>blen / P\<rfloor> + 1"

definition helix_height :: "real \<Rightarrow> real \<Rightarrow> real" where
  "helix_height P blen = trotations P blen * P"

definition thread_profile_wire :: "real \<Rightarrow> real \<Rightarrow> real \<Rightarrow> shape" where
  "thread_profile_wire dia P blen =
     (let H = sqrt 3 / 2 * P;
          fillet_r = P * sqrt 3 / 12;
          dia2 = dia / 2;
          fm = [];
          fm = AddPoint fm (dia2 + sqrt3 * 3 / 80 * P) (- 0.475 * P);
          fm = AddPoint fm (dia2 - 0.625 * H) (- 1 * P / 8);
          fm = AddArc fm (dia2 - 0.625 * H - 0.5 * fillet_r) 0 (dia2 - 0.625 * H) (P / 8);
          fm = AddPoint fm (dia2 + sqrt3 * 3 / 80 * P) (0.475 * P)
      in Translate (0, 0, - 1 * helix_height P blen) (GetClosedWire fm))"

definition main_helix :: "Screw \<Rightarrow> real \<Rightarrow> real \<Rightarrow> real \<Rightarrow> shape" where
  "main_helix self dia P blen =
     Rotate (0, 0, 0) (1, 0, 0) 180
       (MakeLongHelix P (helix_height P blen) (dia / 2) 0 (leftHanded self))"

definition lead_out_helix :: "Screw \<Rightarrow> real \<Rightarrow> real \<Rightarrow> shape" where
  "lead_out_helix self dia P =
     (let H = sqrt 3 / 2 * P;
          fillet_r = P * sqrt 3 / 12
      in Translate (0.5 * (- 1 * (5 / 8 * H + 0.5 * fillet_r)), 0, 0)
           (MakeLongHelix P (P / 2) (dia / 2 + 0.5 * (5 / 8 * H + 0.5 * fillet_r)) 0
              (leftHanded self)))"

definition thread_sweep :: "Screw \<Rightarrow> real \<Rightarrow> real \<Rightarrow> real \<Rightarrow> shape" where
  "thread_sweep self dia P blen =
     (let sweep_path = Wire [main_helix self dia P blen, lead_out_helix self dia P]
      in MakePipeShell sweep_path True 1 [thread_profile_wire dia P blen])"

text \<open>
  \<^verbatim>\<open>blen // P\<close> raises \<open>ZeroDivisionError\<close> when \<open>P\<close> is zero; a sweep that is not
  ready raises \<open>RuntimeError\<close>.
\<close>

definition CreateThreadCutter :: "kernel \<Rightarrow> Screw \<Rightarrow> real \<Rightarrow> real \<Rightarrow> real \<Rightarrow> error + shape" where
  "CreateThreadCutter k self dia P blen =
     (if P = 0 then Inl ZeroDivisionError
      else
        (let sweep = thread_sweep self dia P blen
         in if isReady k sweep then Inr (SweepSolid sweep)
            else Inl (RuntimeError ''Failed to create shell thread: could not sweep thread'')))"

text \<open>
  The axial length of a sweep path: the height of a helix, unchanged by moving it, and
  the sum over the pieces of a path made of several.
\<close>

fun path_height :: "shape \<Rightarrow> real" where
  "path_height (MakeLongHelix pitch height radius angle lh) = height"
| "path_height (Translate v s) = path_height s"
| "path_height (Rotate c a deg s) = path_height s"
| "path_height (Wire ss) = sum_list (map path_height ss)"
| "path_height _ = 0"

section \<open>The shell thread\<close>

text \<open>The clamped offset of the cutter, lines 366 to 369 of the source.\<close>

definition makeShellthread_toffset :: "real \<Rightarrow> real \<Rightarrow> real \<Rightarrow> real" where
  "makeShellthread_toffset P blen tlen =
     (let toffset = blen - tlen + P / 2;
          minoffset = 5 * P / 8
      in if toffset < minoffset then minoffset else toffset)"

definition makeShellthread_base_body :: "Screw \<Rightarrow> real \<Rightarrow> real \<Rightarrow> real \<Rightarrow> bool \<Rightarrow> shape" where
  "makeShellthread_base_body self dia P blen withcham =
     (let correction = 0.00001;
          dia2 = dia / 2;
          corr_blen = blen - correction;
          pnt0 = (dia2, 0);
          pnt1 = (dia2, - blen + P / 2);
          pnt2 = (dia2 - P / 2, - corr_blen);
          pnt3 = (0, - corr_blen);
          pnt4 = (0, 0);
          pnt5 = (dia2, - corr_blen);
          fm = [];
          fm = AddPoints fm [pnt0];
          fm = (if withcham then AddPoints fm [pnt1, pnt2] else AddPoints fm [pnt5]);
          fm = AddPoints fm [pnt3, pnt4];
          base_profile = GetClosedWire fm;
          base_shell = RevolveZ self base_profile 360
      in MakeSolid base_shell)"

text \<open>
  The branch under \<^verbatim>\<open>if toffset < 0\<close>: the cap solid it builds, \<open>None\<close> when the
  branch is not entered. The source never uses the cap (the fuse is commented out).
\<close>

definition makeShellthread_cap :: "Screw \<Rightarrow> real \<Rightarrow> real \<Rightarrow> shape option" where
  "makeShellthread_cap self dia toffset =
     (if toffset < 0 then
        (let dia2 = dia / 2;
             pnt0 = (dia2, 0);
             pnt4 = (0, 0);
             fm = AddPoints [] [pnt4, pnt0, (0, - dia2)];
             cap_profile = GetClosedWire fm;
             cap_shell = RevolveZ self cap_profile 360
         in Some (MakeSolid cap_shell))
      else None)"

definition threaded_solid :: "Screw \<Rightarrow> real \<Rightarrow> real \<Rightarrow> real \<Rightarrow> bool \<Rightarrow> real \<Rightarrow> shape \<Rightarrow> shape" where
  "threaded_solid self dia P blen withcham toffset swept_solid =
     (let swept_solid = Translate (0, 0, - toffset) swept_solid;
          base_body = Rotate (0, 0, 0) (0, 0, 1) 90
                        (makeShellthread_base_body self dia P blen withcham)
      in Cut base_body swept_solid)"

definition makeShellthread ::
  "kernel \<Rightarrow> Screw \<Rightarrow> real \<Rightarrow> real \<Rightarrow> real \<Rightarrow> bool \<Rightarrow> real \<Rightarrow> real \<Rightarrow> error + shape" where
  "makeShellthread k self dia P blen withcham ztop tlen0 =
     (let tlen = (if tlen0 < 0 then blen else tlen0) in
      (case CreateThreadCutter k self dia P blen of
         Inl err \<Rightarrow> Inl err
       | Inr swept_solid \<Rightarrow>
           (let toffset = makeShellthread_toffset P blen tlen;
                threaded = threaded_solid self dia P blen withcham toffset swept_solid;
                result = Shell (filter (\<lambda>x. \<not> \<bar>snd (snd (CenterOfMass k x))\<bar> < 0.0000001)
                                  (Faces k threaded))
            in (case makeShellthread_cap self dia toffset of
                  None \<Rightarrow> Inr (Translate (0, 0, ztop) result)
                | Some cap_solid \<Rightarrow> Inr (Translate (0, 0, ztop) result)))))"

text \<open>The call that omits \<^verbatim>\<open>tlen\<close>, whose default is \<open>-1\<close>.\<close>

definition makeShellthread_default ::
  "kernel \<Rightarrow> Screw \<Rightarrow> real \<Rightarrow> real \<Rightarrow> real \<Rightarrow> bool \<Rightarrow> real \<Rightarrow> error + shape" where
  "makeShellthread_default k self dia P blen withcham ztop =
     makeShellthread k self dia P blen withcham ztop (- 1)"

section \<open>The inner thread\<close>

















section \<open>Shape objects and the geometry cache\<close>

text \<open>
  The cached tools are Python objects that the cache and every caller share, and whose
  placement can be assigned. They live in a heap: a reference is an index into the list
  of objects, an object is the term of its geometry and its placement (a base vector and
  a rotation quaternion). A new object has the identity placement.
\<close>

type_synonym quat = "real \<times> real \<times> real \<times> real"

record Placement =
  Base :: vec
  Rotation :: quat

record obj =
  geometry :: shape
  placement :: Placement

type_synonym ref = nat

text \<open>What a cache entry or a factory result is: one shape, or a (solid, shell) pair.\<close>

datatype cached = One ref | Pair ref ref

text \<open>
  Modelled from the spec: \<^verbatim>\<open>FastenerBase.FSGetKey\<close> and \<^verbatim>\<open>FastenerBase.FSCache\<close> are
  not under src/. The spec describes the cache as a mapping from a structural key, the
  operation name with the ordered parameter values, to a shape or pair built before, with
  no eviction; \<^verbatim>\<open>FSGetKey\<close> returns the key and the entry found under it, \<open>None\<close> on
  a miss.
\<close>

type_synonym key = "string \<times> pyval list"

record world =
  heap :: "obj list"
  FSCache :: "key \<rightharpoonup> cached"

definition FSGetKey :: "world \<Rightarrow> string \<Rightarrow> pyval list \<Rightarrow> key \<times> cached option" where
  "FSGetKey w opname params = ((opname, params), FSCache w (opname, params))"

definition new_obj :: "shape \<Rightarrow> world \<Rightarrow> ref \<times> world" where
  "new_obj g w =
     (length (heap w),
      w \<lparr> heap := heap w @ [\<lparr> geometry = g,
                              placement = \<lparr> Base = (0, 0, 0), Rotation = (0, 0, 0, 1) \<rparr> \<rparr>] \<rparr>)"

text \<open>\<^verbatim>\<open>x.Placement = pl\<close> and \<^verbatim>\<open>x.Placement.Base = v\<close> on the object at \<open>r\<close>.\<close>

definition set_Placement :: "ref \<Rightarrow> Placement \<Rightarrow> world \<Rightarrow> world" where
  "set_Placement r pl w = w \<lparr> heap := (heap w)[r := (heap w ! r) \<lparr> placement := pl \<rparr>] \<rparr>"

definition set_Base :: "ref \<Rightarrow> vec \<Rightarrow> world \<Rightarrow> world" where
  "set_Base r v w =
     w \<lparr> heap := (heap w)[r := (heap w ! r) \<lparr> placement := (placement (heap w ! r)) \<lparr> Base := v \<rparr> \<rparr>] \<rparr>"

definition Base_of :: "world \<Rightarrow> ref \<Rightarrow> vec" where
  "Base_of w r = Base (placement (heap w ! r))"

definition empty_world :: world where
  "empty_world = \<lparr> heap = [], FSCache = Map.empty \<rparr>"

subsection \<open>\<^verbatim>\<open>Screw.cutChamfer\<close>\<close>

definition cutChamfer_profile :: "real \<Rightarrow> real \<Rightarrow> real \<Rightarrow> FSFaceMaker" where
  "cutChamfer_profile dia_cC P_cC l_cC =
     (let cham_t = P_cC * sqrt3 / 2.0 * 17.0 / 24.0;
          dia_cC2 = dia_cC / 2.0;
          fm = [];
          fm = AddPoint fm 0.0 (- l_cC);
          fm = AddPoint fm (dia_cC2 - cham_t) (- l_cC);
          fm = AddPoint fm (dia_cC2 + cham_t) (- l_cC + cham_t + cham_t);
          fm = AddPoint fm (dia_cC2 + cham_t) (- l_cC - P_cC - cham_t);
          fm = AddPoint fm 0.0 (- l_cC - P_cC - cham_t)
      in fm)"

definition cutChamfer :: "Screw \<Rightarrow> real \<Rightarrow> real \<Rightarrow> real \<Rightarrow> world \<Rightarrow> cached \<times> world" where
  "cutChamfer self dia_cC P_cC l_cC w =
     (let (key, res) = FSGetKey w ''CrhamferTool'' [PyFloat dia_cC, PyFloat P_cC, PyFloat l_cC]
      in (case res of
            Some found \<Rightarrow> (found, w)
          | None \<Rightarrow>
              (let CFace = GetFace (cutChamfer_profile dia_cC P_cC l_cC);
                   (cyl, w) = new_obj (RevolveZ self CFace 360) w;
                   w = w \<lparr> FSCache := (FSCache w)(key \<mapsto> One cyl) \<rparr>
               in (One cyl, w))))"

text \<open>
  The axial extent of a profile is the span of the axial coordinates of its points; a
  revolution about the Z axis keeps it, and so does a translation. A sweep carries its
  profile from one end of the path to the other, so the swept solid spans the axial
  length of the path and, at the two ends, what the profile itself spans; a profile
  without points sweeps nothing. A term is free of boolean operations when no cut,
  common or general fuse occurs in it.
\<close>

fun profile_of :: "shape \<Rightarrow> FSFaceMaker" where
  "profile_of (GetWire fm) = fm"
| "profile_of (GetClosedWire fm) = fm"
| "profile_of (GetFace fm) = fm"
| "profile_of (Translate v s) = profile_of s"
| "profile_of (Rotate c a deg s) = profile_of s"
| "profile_of _ = []"

fun profile_zs :: "FSFaceMaker \<Rightarrow> real list" where
  "profile_zs [] = []"
| "profile_zs (Point x z # fm) = z # profile_zs fm"
| "profile_zs (Arc x1 z1 x2 z2 # fm) = z1 # z2 # profile_zs fm"

definition profile_extent :: "FSFaceMaker \<Rightarrow> real" where
  "profile_extent fm = Max (set (profile_zs fm)) - Min (set (profile_zs fm))"

fun axial_extent :: "shape \<Rightarrow> real" where
  "axial_extent (GetFace fm) = profile_extent fm"
| "axial_extent (GetWire fm) = profile_extent fm"
| "axial_extent (GetClosedWire fm) = profile_extent fm"
| "axial_extent (Revolve s c a deg) = (if a = (0, 0, 1) then axial_extent s else 0)"
| "axial_extent (Translate v s) = axial_extent s"
| "axial_extent (MakePipeShell path fr tr [profile]) =
     (if profile_of profile = [] then 0 else path_height path + axial_extent profile)"
| "axial_extent (SweepSolid sweep) = axial_extent sweep"
| "axial_extent _ = 0"

fun boolean_free :: "shape \<Rightarrow> bool" where
  "boolean_free (Cut a b) = False"
| "boolean_free (Common a b) = False"
| "boolean_free (GeneralFuse a bs fuzz) = False"
| "boolean_free (Translate v s) = boolean_free s"
| "boolean_free (Rotate c a deg s) = boolean_free s"
| "boolean_free (Wire ss) = list_all boolean_free ss"
| "boolean_free (MakePipeShell path fr tr ps) = (boolean_free path \<and> list_all boolean_free ps)"
| "boolean_free (SweepSolid s) = boolean_free s"
| "boolean_free (WirePipeShell path ps ms fr) = (boolean_free path \<and> list_all boolean_free ps)"
| "boolean_free (Revolve s c a deg) = boolean_free s"
| "boolean_free (MakeSolid s) = boolean_free s"
| "boolean_free (Solid s) = boolean_free s"
| "boolean_free (Shell ss) = list_all boolean_free ss"
| "boolean_free (Face s) = boolean_free s"
| "boolean_free (Reverse s) = boolean_free s"
| "boolean_free (Extrude s v) = boolean_free s"
| "boolean_free (Sub s i) = boolean_free s"
| "boolean_free _ = True"

subsection \<open>\<^verbatim>\<open>Screw.makeAllen2\<close>\<close>

text \<open>\<^verbatim>\<open>mhex.rotateZ(a)\<close> followed by \<^verbatim>\<open>mhex.multiply(v)\<close>: the rotation of \<open>v\<close> about Z.\<close>

fun rotateZ :: "real \<Rightarrow> vec \<Rightarrow> vec" where
  "rotateZ a (x, y, z) = (x * cos a - y * sin a, x * sin a + y * cos a, z)"

text \<open>
  The loop \<^verbatim>\<open>for i in range(6): polygon.append(vhex); vhex = mhex.multiply(vhex)\<close> with
  the \<^verbatim>\<open>polygon.append(vhex)\<close> that follows it: \<open>hexagon_points 6 vhex\<close>.
\<close>

primrec hexagon_points :: "nat \<Rightarrow> vec \<Rightarrow> vec list" where
  "hexagon_points 0 vhex = [vhex]"
| "hexagon_points (Suc n) vhex = vhex # hexagon_points n (rotateZ (radians 60.0) vhex)"

text \<open>
  The build path of \<^verbatim>\<open>makeAllen2\<close>, from the face maker to \<^verbatim>\<open>allenShell\<close>: the
  geometry of \<^verbatim>\<open>solidHex\<close> and of \<^verbatim>\<open>allenShell\<close>. The divisions by \<open>depth ** 2\<close>
  and by \<open>e_cham\<close> raise \<open>ZeroDivisionError\<close> when \<open>s_a\<close> is zero, and
  \<^verbatim>\<open>allen.Faces[0]\<close> raises \<open>IndexError\<close> when the kernel gives no face.
\<close>

definition makeAllen2_build ::
  "kernel \<Rightarrow> Screw \<Rightarrow> real \<Rightarrow> real \<Rightarrow> real \<Rightarrow> error + (shape \<times> shape)" where
  "makeAllen2_build k self s_a t_a t_2 =
     (let fm_depth =
        (if t_2 = 0.0 then
           (let depth = s_a / 3.0;
                e_cham = 2.0 * s_a / sqrt 3.0
            in if depth ^ 2 = 0 \<or> e_cham = 0 then Inl ZeroDivisionError
               else
                 (let rCone = e_cham / 4.0;
                      hyp = (depth * sqrt (e_cham ^ 2 / depth ^ 2 + 1.0) * rCone) / e_cham;
                      radAlpha = arctan (e_cham / depth);
                      radBeta = pi / 2.0 - radAlpha;
                      zrConeCenter = hyp - depth - t_a;
                      xArc1 = sin radBeta * rCone;
                      zArc1 = zrConeCenter - cos radBeta * rCone;
                      xArc2 = sin (radBeta / 2.0) * rCone;
                      zArc2 = zrConeCenter - cos (radBeta / 2.0) * rCone;
                      zArc3 = zrConeCenter - rCone;
                      fm = [];
                      fm = AddPoint fm 0.0 (- t_a - depth - depth);
                      fm = AddPoint fm e_cham (- t_a - depth - depth);
                      fm = AddPoint fm e_cham (- t_a + depth);
                      fm = AddPoint fm xArc1 zArc1;
                      fm = AddArc fm xArc2 zArc2 0.0 zArc3;
                      hex_depth = - 1.0 - t_a - depth * 1.1
                  in Inr (fm, hex_depth)))
         else
           (let e_cham = 2.0 * s_a / sqrt 3.0;
                d_cent = s_a / 3.0;
                depth_cent = d_cent * tan (pi / 6.0);
                depth_cham = (e_cham - d_cent) * tan (pi / 6.0);
                fm = [];
                fm = AddPoint fm 0.0 (- t_2 - depth_cent);
                fm = AddPoint fm 0.0 (- t_2 - depth_cent - depth_cent);
                fm = AddPoint fm e_cham (- t_2 - depth_cent - depth_cent);
                fm = AddPoint fm e_cham (- t_a + depth_cham);
                fm = AddPoint fm d_cent (- t_a);
                fm = AddPoint fm d_cent (- t_2);
                hex_depth = - 1.0 - t_2 - depth_cent * 1.1
            in Inr (fm, hex_depth)))
      in (case fm_depth of
            Inl err \<Rightarrow> Inl err
          | Inr (fm, hex_depth) \<Rightarrow>
              (let hFace = GetFace fm;
                   roundtool = RevolveZ self hFace 360;
                   polygon = hexagon_points 6 (s_a / sqrt 3.0, 0.0, 1.0);
                   hexagon = MakePolygon polygon;
                   hexFace = Face hexagon;
                   solidHex = Extrude hexFace (0.0, 0.0, hex_depth);
                   allen = Cut solidHex roundtool
               in (case py_index (Faces k allen) 0 of
                     Inl err \<Rightarrow> Inl err
                   | Inr face0 \<Rightarrow>
                       (let allenFaces = face0 # drop 2 (Faces k allen);
                            allenShell = Shell allenFaces
                        in Inr (solidHex, allenShell))))))"

text \<open>
  On a hit the placement of both cached objects is assigned (the source: "reset
  placement should original objects were moved") and the pair is returned. On a miss the
  pair is built, placed at \<open>h_a\<close>, stored and returned. Indexing an entry that is one
  shape, not a pair, raises \<open>TypeError\<close>.
\<close>

definition makeAllen2 ::
  "kernel \<Rightarrow> Screw \<Rightarrow> real \<Rightarrow> real \<Rightarrow> real \<Rightarrow> real \<Rightarrow> world \<Rightarrow> error + (cached \<times> world)" where
  "makeAllen2 k self s_a t_a h_a t_2 w =
     (let (key, res) = FSGetKey w ''Allen2Tool'' [PyFloat s_a, PyFloat t_a, PyFloat h_a, PyFloat t_2]
      in (case res of
            Some (Pair res0 res1) \<Rightarrow>
              (let w = set_Placement res0 \<lparr> Base = (0, 0, h_a), Rotation = (0, 0, 0, 1) \<rparr> w;
                   w = set_Placement res1 \<lparr> Base = (0, 0, h_a), Rotation = (0, 0, 0, 1) \<rparr> w
               in Inr (Pair res0 res1, w))
          | Some (One r) \<Rightarrow> Inl TypeError
          | None \<Rightarrow>
              (case makeAllen2_build k self s_a t_a t_2 of
                 Inl err \<Rightarrow> Inl err
               | Inr (solidHex_shape, allenShell_shape) \<Rightarrow>
                   (let (solidHex, w) = new_obj solidHex_shape w;
                        (allenShell, w) = new_obj allenShell_shape w;
                        w = set_Base solidHex (0.0, 0.0, h_a) w;
                        w = set_Base allenShell (0.0, 0.0, h_a) w;
                        w = w \<lparr> FSCache := (FSCache w)(key \<mapsto> Pair solidHex allenShell) \<rparr>
                    in Inr (Pair solidHex allenShell, w)))))"

subsection \<open>\<^verbatim>\<open>Screw.makeIso10664_3\<close>\<close>

text \<open>
  The loop \<^verbatim>\<open>for i in range(5)\<close> that adds two arcs for each further lobe; the state is
  \<open>(PntRe1, PntRe2, PntRi, PntRi2)\<close> and the list of edges.
\<close>

fun hexlob_loop ::
  "nat list \<Rightarrow> vec \<Rightarrow> vec \<times> vec \<times> vec \<times> vec \<Rightarrow> shape list \<Rightarrow> shape list" where
  "hexlob_loop [] PntRe0 st hexlobWireList = hexlobWireList"
| "hexlob_loop (i # rest) PntRe0 (PntRe1, PntRe2, PntRi, PntRi2) hexlobWireList =
     (let PntRe1 = rotateZ (radians 60.0) PntRe1;
          PntRe2 = rotateZ (radians 60.0) PntRe2;
          edge0 = ArcEdge PntRi2 PntRe1 PntRe2;
          hexlobWireList = hexlobWireList @ [edge0];
          PntRi = rotateZ (radians 60.0) PntRi;
          PntRi2 = rotateZ (radians 60.0) PntRi2;
          edge1 = (if i = 5 then ArcEdge PntRe2 PntRi PntRe0 else ArcEdge PntRe2 PntRi PntRi2);
          hexlobWireList = hexlobWireList @ [edge1]
      in hexlob_loop rest PntRe0 (PntRe1, PntRe2, PntRi, PntRi2) hexlobWireList)"

text \<open>
  The build path of \<^verbatim>\<open>makeIso10664_3\<close>: the geometry of \<^verbatim>\<open>Helo\<close> and of
  \<^verbatim>\<open>hexlobShell\<close>. The dimension table \<^verbatim>\<open>FsData["iso10664def"]\<close> is data outside the
  module and a parameter here; a missing size raises \<open>KeyError\<close>. A zero divisor raises
  \<open>ZeroDivisionError\<close>, \<^verbatim>\<open>math.acos\<close> outside \<open>[-1, 1]\<close> raises \<open>ValueError\<close>, and
  \<^verbatim>\<open>hexlob.Faces[i]\<close> for \<open>i\<close> up to 14 raises \<open>IndexError\<close> on fewer than 15 faces.
  The source's \<^verbatim>\<open>Re\<close> is written \<open>Re'\<close>.
\<close>

definition makeIso10664_3_build ::
  "kernel \<Rightarrow> (string \<rightharpoonup> real \<times> real \<times> real) \<Rightarrow> Screw \<Rightarrow> string \<Rightarrow> real
     \<Rightarrow> error + (shape \<times> shape)" where
  "makeIso10664_3_build k iso10664def self RType t_hl =
     (case iso10664def RType of
        None \<Rightarrow> Inl KeyError
      | Some (A, B, Re') \<Rightarrow>
          (let sqrt_3 = sqrt 3.0;
               depth = A / 4.0;
               offSet = 1.0
           in if depth ^ 2 = 0 \<or> A = 0 then Inl ZeroDivisionError
              else
                (let rCone = A / 4.0;
                     hyp = (depth * sqrt (A ^ 2 / depth ^ 2 + 1.0) * rCone) / A;
                     radAlpha = arctan (A / depth);
                     radBeta = pi / 2.0 - radAlpha;
                     zrConeCenter = hyp - depth - t_hl;
                     xArc1 = sin radBeta * rCone;
                     zArc1 = zrConeCenter - cos radBeta * rCone;
                     xArc2 = sin (radBeta / 2.0) * rCone;
                     zArc2 = zrConeCenter - cos (radBeta / 2.0) * rCone;
                     zArc3 = zrConeCenter - rCone;
                     fm = [];
                     fm = AddPoint fm 0.0 (- t_hl - depth - 1.0);
                     fm = AddPoint fm A (- t_hl - depth - 1.0);
                     fm = AddPoint fm A (- t_hl + depth);
                     fm = AddPoint fm xArc1 zArc1;
                     fm = AddArc fm xArc2 zArc2 0.0 zArc3;
                     hFace = GetFace fm;
                     cutTool = RevolveZ self hFace 360
                 in if 4 * B - 2 * sqrt_3 * A + (4 * sqrt_3 - 8) * Re' = 0
                    then Inl ZeroDivisionError
                    else
                      (let Ri = - ((B + sqrt_3 * (2 * Re' - A)) * B + (A - 4 * Re') * A)
                                  / (4 * B - 2 * sqrt_3 * A + (4 * sqrt_3 - 8) * Re')
                       in if 4 * Ri + 4 * Re' = 0 then Inl ZeroDivisionError
                          else if \<not> (- 1 \<le> A / (4 * Ri + 4 * Re') - (2 * Re') / (4 * Ri + 4 * Re')
                                      \<and> A / (4 * Ri + 4 * Re') - (2 * Re') / (4 * Ri + 4 * Re') \<le> 1)
                          then Inl ValueError
                          else
                            (let beta = arccos (A / (4 * Ri + 4 * Re') - (2 * Re') / (4 * Ri + 4 * Re'))
                                          - pi / 6;
                                 Rh = (sqrt_3 * (A / 2.0 - Re')) / 2.0;
                                 Re_x = A / 2.0 - Re' + Re' * sin beta;
                                 Re_y = Re' * cos beta;
                                 Ri_y = B / 4.0;
                                 Ri_x = sqrt_3 * B / 4.0;
                                 PntRe0 = (Re_x, - Re_y, offSet);
                                 PntRe1 = (A / 2.0, 0.0, offSet);
                                 PntRe2 = (Re_x, Re_y, offSet);
                                 edge0 = ArcEdge PntRe0 PntRe1 PntRe2;
                                 hexlobWireList = [edge0];
                                 PntRi = (Ri_x, Ri_y, offSet);
                                 PntRi2 = rotateZ (radians 60.0) PntRe0;
                                 edge1 = ArcEdge PntRe2 PntRi PntRi2;
                                 hexlobWireList = hexlobWireList @ [edge1];
                                 hexlobWireList =
                                   hexlob_loop [0, 1, 2, 3, 4] PntRe0 (PntRe1, PntRe2, PntRi, PntRi2)
                                     hexlobWireList;
                                 hexlobWire = Wire hexlobWireList;
                                 face = Face hexlobWire;
                                 Helo = Extrude face (0.0, 0.0, - t_hl - depth - offSet);
                                 hexlob = Cut Helo cutTool
                             in if length (Faces k hexlob) < 15 then Inl IndexError
                                else
                                  (let hexlobFaces =
                                         (Faces k hexlob ! 0) # take 13 (drop 2 (Faces k hexlob));
                                       hexlobShell = Shell hexlobFaces
                                   in Inr (Helo, hexlobShell)))))))"

text \<open>
  On a hit the entry is returned as it is found: no placement is assigned. On a miss the
  pair is built, placed at \<open>h_hl\<close>, stored and returned.
\<close>

definition makeIso10664_3 ::
  "kernel \<Rightarrow> (string \<rightharpoonup> real \<times> real \<times> real) \<Rightarrow> Screw \<Rightarrow> string \<Rightarrow> real \<Rightarrow> real \<Rightarrow> world
     \<Rightarrow> error + (cached \<times> world)" where
  "makeIso10664_3 k iso10664def self RType t_hl h_hl w =
     (let (key, res) = FSGetKey w ''HexalobularTool'' [PyStr RType, PyFloat t_hl, PyFloat h_hl]
      in (case res of
            Some found \<Rightarrow> Inr (found, w)
          | None \<Rightarrow>
              (case makeIso10664_3_build k iso10664def self RType t_hl of
                 Inl err \<Rightarrow> Inl err
               | Inr (Helo_shape, hexlobShell_shape) \<Rightarrow>
                   (let (Helo, w) = new_obj Helo_shape w;
                        (hexlobShell, w) = new_obj hexlobShell_shape w;
                        w = set_Base hexlobShell (0.0, 0.0, h_hl) w;
                        w = set_Base Helo (0.0, 0.0, h_hl) w;
                        w = w \<lparr> FSCache := (FSCache w)(key \<mapsto> Pair Helo hexlobShell) \<rparr>
                    in Inr (Pair Helo hexlobShell, w)))))"

text \<open>A kernel for concrete runs in which every shape has twenty faces.\<close>

definition faceted_kernel :: kernel where
  "faceted_kernel =
     \<lparr> isReady = (\<lambda>s. True), Faces = (\<lambda>s. map (Sub s) [0..<20]), Edges = (\<lambda>s. []),
       Vertexes = (\<lambda>s. []), CenterOfMass = (\<lambda>s. (0, 0, 0)), generalFuse = (\<lambda>s ss fuzz. []),
       sortEdges = (\<lambda>es. es) \<rparr>"

text \<open>A dimension table with one size (the values of the kind the standard gives).\<close>

definition sample_iso10664def :: "string \<rightharpoonup> real \<times> real \<times> real" where
  "sample_iso10664def = [''T20'' \<mapsto> (3.86, 2.75, 0.32)]"

text \<open>A kernel for concrete runs: every sweep is ready, and a shape has no pieces.\<close>

definition plain_kernel :: kernel where
  "plain_kernel =
     \<lparr> isReady = (\<lambda>s. True), Faces = (\<lambda>s. []), Edges = (\<lambda>s. []), Vertexes = (\<lambda>s. []),
       CenterOfMass = (\<lambda>s. (0, 0, 0)), generalFuse = (\<lambda>s ss fuzz. []),
       sortEdges = (\<lambda>es. es) \<rparr>"

text \<open>A kernel that refuses exactly one sweep and accepts every other one.\<close>

definition refusing_kernel :: "shape \<Rightarrow> kernel" where
  "refusing_kernel sweep = plain_kernel \<lparr> isReady := (\<lambda>s. s \<noteq> sweep) \<rparr>"

text \<open>
  The worlds left by a first call of each recess factory on an empty cache, with the
  sample table and the kernel with twenty faces.
\<close>

definition iso_world :: world where
  "iso_world =
     snd (projr (makeIso10664_3 faceted_kernel sample_iso10664def Screw_init ''T20'' 3.0 0 empty_world))"

definition allen_world :: world where
  "allen_world = snd (projr (makeAllen2 faceted_kernel Screw_init 3.0 1.5 2.0 0.0 empty_world))"

section \<open>Properties\<close>

lemma cos30_eq: "cos30 = sqrt 3 / 2"
  by (simp add: cos30_def radians_def cos_30)

text \<open>
  Claim C7. For every diameter, pitch and epsilon, \<^verbatim>\<open>GetInnerThreadMinDiameter\<close> returns
  exactly \<open>dia - (5/4) H + epsilon\<close> with \<open>H = P cos 30\<degree>\<close>; the value does not depend on
  the \<^verbatim>\<open>Screw\<close> object, and the epsilon of a call that omits it is \<open>0.001\<close>.
\<close>

theorem GetInnerThreadMinDiameter_formula:
  "GetInnerThreadMinDiameter self dia P eps = dia - (5 / 4) * (P * cos (pi / 6)) + eps
   \<and> GetInnerThreadMinDiameter self dia P eps = GetInnerThreadMinDiameter self' dia P eps
   \<and> GetInnerThreadMinDiameter_default self dia P = dia - (5 / 4) * (P * cos (pi / 6)) + 0.001"
  by (simp add: GetInnerThreadMinDiameter_def GetInnerThreadMinDiameter_default_def
      cos30_eq cos_30)

text \<open>
  Claim C10. An integer argument is returned by \<^verbatim>\<open>getLength\<close> unchanged: no parsing and
  no inch conversion.
\<close>

theorem getLength_int_passthrough:
  "getLength self (PyInt L) = Inr (PyInt L)"
  by simp

subsection \<open>The external thread cutter and the shell thread\<close>

lemma floor_cover: "0 < P \<Longrightarrow> blen < (of_int \<lfloor>blen / P\<rfloor> + 1) * (P::real)"
proof -
  assume P: "0 < P"
  have "blen / P < of_int \<lfloor>blen / P\<rfloor> + 1" by linarith
  then have "blen / P * P < (of_int \<lfloor>blen / P\<rfloor> + 1) * P"
    using P by (rule mult_strict_right_mono)
  then show ?thesis using P by simp
qed

lemma makeShellthread_toffset_max:
  "makeShellthread_toffset P blen tlen = max (blen - tlen + P / 2) (5 * P / 8)"
  by (simp add: makeShellthread_toffset_def Let_def max_def)

lemma thread_profile_zs:
  "profile_of (thread_profile_wire dia P blen) \<noteq> []
   \<and> profile_zs (profile_of (thread_profile_wire dia P blen))
       = [- 0.475 * P, - 1 * P / 8, 0, P / 8, 0.475 * P]"
  by (simp add: thread_profile_wire_def AddPoint_def AddArc_def Let_def)

lemma thread_profile_extent:
  assumes "0 < P"
  shows "axial_extent (thread_profile_wire dia P blen) = 0.95 * P"
proof -
  have zs: "profile_zs (profile_of (thread_profile_wire dia P blen))
       = [- 0.475 * P, - 1 * P / 8, 0, P / 8, 0.475 * P]"
    using thread_profile_zs by blast
  have e: "axial_extent (thread_profile_wire dia P blen)
             = profile_extent (profile_of (thread_profile_wire dia P blen))"
    by (simp add: thread_profile_wire_def Let_def)
  have mx: "Max {- 0.475 * P, - 1 * P / 8, 0, P / 8, 0.475 * P} = 0.475 * P"
    using assms by (simp add: max_def)
  have mn: "Min {- 0.475 * P, - 1 * P / 8, 0, P / 8, 0.475 * P} = - 0.475 * P"
    using assms by (simp add: min_def)
  show ?thesis
    unfolding e profile_extent_def zs using mx mn by simp
qed

lemma thread_sweep_extent:
  assumes "0 < P"
  shows "axial_extent (SweepSolid (thread_sweep self d P blen))
           = (of_int \<lfloor>blen / P\<rfloor> + 1) * P + P / 2 + 0.95 * P"
proof -
  have ph: "path_height (Wire [main_helix self d P blen, lead_out_helix self d P])
              = (of_int \<lfloor>blen / P\<rfloor> + 1) * P + P / 2"
    by (simp add: main_helix_def lead_out_helix_def helix_height_def trotations_def Let_def)
  have ne: "profile_of (thread_profile_wire d P blen) \<noteq> []"
    using thread_profile_zs by blast
  show ?thesis
    unfolding thread_sweep_def Let_def
    by (simp only: axial_extent.simps ne if_False ph thread_profile_extent [OF assms])
qed

text \<open>
  Claim C1. For a diameter \<open>d > 0\<close>, a pitch \<open>P > 0\<close> and a body length with
  \<open>P < blen\<close>, \<^verbatim>\<open>CreateThreadCutter\<close> computes the turn count \<open>floor (blen / P) + 1\<close>
  and sweeps along a main helix of height \<open>(floor (blen / P) + 1) P\<close>, which is at least
  \<open>blen\<close>. Every solid the call returns is the thread profile swept along that helix
  and the lead-out: its axial extent is the height of the main helix, the half pitch of
  the lead-out and the \<open>0.95 P\<close> of the profile, hence at least \<open>blen\<close>.
\<close>

theorem CreateThreadCutter_coverage:
  assumes "0 < d" and "0 < P" and "P < blen"
  shows "trotations P blen = of_int \<lfloor>blen / P\<rfloor> + 1
    \<and> main_helix self d P blen =
        Rotate (0, 0, 0) (1, 0, 0) 180
          (MakeLongHelix P ((of_int \<lfloor>blen / P\<rfloor> + 1) * P) (d / 2) 0 (leftHanded self))
    \<and> blen \<le> (of_int \<lfloor>blen / P\<rfloor> + 1) * P
    \<and> blen \<le> path_height (Wire [main_helix self d P blen, lead_out_helix self d P])
    \<and> (isReady k (thread_sweep self d P blen) \<longrightarrow>
         CreateThreadCutter k self d P blen =
           Inr (SweepSolid (MakePipeShell
                  (Wire [main_helix self d P blen, lead_out_helix self d P]) True 1
                  [thread_profile_wire d P blen])))
    \<and> (\<forall>solid. CreateThreadCutter k self d P blen = Inr solid \<longrightarrow>
          axial_extent solid = (of_int \<lfloor>blen / P\<rfloor> + 1) * P + P / 2 + 0.95 * P
          \<and> blen \<le> axial_extent solid)"
proof -
  have cover: "blen < (of_int \<lfloor>blen / P\<rfloor> + 1) * P"
    using assms(2) by (rule floor_cover)
  have ph: "path_height (Wire [main_helix self d P blen, lead_out_helix self d P])
              = (of_int \<lfloor>blen / P\<rfloor> + 1) * P + P / 2"
    by (simp add: main_helix_def lead_out_helix_def helix_height_def trotations_def Let_def)
  have run: "isReady k (thread_sweep self d P blen) \<longrightarrow>
         CreateThreadCutter k self d P blen =
           Inr (SweepSolid (MakePipeShell
                  (Wire [main_helix self d P blen, lead_out_helix self d P]) True 1
                  [thread_profile_wire d P blen]))"
    using assms(2) by (simp add: CreateThreadCutter_def thread_sweep_def Let_def)
  have ext: "axial_extent (SweepSolid (thread_sweep self d P blen))
           = (of_int \<lfloor>blen / P\<rfloor> + 1) * P + P / 2 + 0.95 * P"
    using assms(2) by (rule thread_sweep_extent)
  have big: "blen \<le> (of_int \<lfloor>blen / P\<rfloor> + 1) * P + P / 2 + 0.95 * P"
    using cover assms(2) by simp
  have solid: "\<forall>solid. CreateThreadCutter k self d P blen = Inr solid \<longrightarrow>
          axial_extent solid = (of_int \<lfloor>blen / P\<rfloor> + 1) * P + P / 2 + 0.95 * P
          \<and> blen \<le> axial_extent solid"
  proof (intro allI impI)
    fix solid
    assume "CreateThreadCutter k self d P blen = Inr solid"
    then have "solid = SweepSolid (thread_sweep self d P blen)"
      by (simp add: CreateThreadCutter_def Let_def split: if_splits)
    then show "axial_extent solid = (of_int \<lfloor>blen / P\<rfloor> + 1) * P + P / 2 + 0.95 * P
          \<and> blen \<le> axial_extent solid"
      using ext big by simp
  qed
  have t: "trotations P blen = of_int \<lfloor>blen / P\<rfloor> + 1" by (simp add: trotations_def)
  have m: "main_helix self d P blen =
        Rotate (0, 0, 0) (1, 0, 0) 180
          (MakeLongHelix P ((of_int \<lfloor>blen / P\<rfloor> + 1) * P) (d / 2) 0 (leftHanded self))"
    by (simp add: main_helix_def helix_height_def trotations_def)
  have c1: "blen \<le> (of_int \<lfloor>blen / P\<rfloor> + 1) * P" using cover by simp
  have c2: "blen \<le> path_height (Wire [main_helix self d P blen, lead_out_helix self d P])"
    unfolding ph using cover assms(2) by simp
  from t m c1 c2 run solid show ?thesis by (intro conjI)
qed

theorem CreateThreadCutter_coverage_witness:
  "(0::real) < 6 \<and> (0::real) < 1 \<and> (1::real) < 10
   \<and> isReady plain_kernel (thread_sweep Screw_init 6 1 10)
   \<and> trotations 1 10 = 11
   \<and> main_helix Screw_init 6 1 10 = Rotate (0, 0, 0) (1, 0, 0) 180 (MakeLongHelix 1 11 3 0 False)
   \<and> CreateThreadCutter plain_kernel Screw_init 6 1 10 =
       Inr (SweepSolid (MakePipeShell
              (Wire [main_helix Screw_init 6 1 10, lead_out_helix Screw_init 6 1]) True 1
              [thread_profile_wire 6 1 10]))
   \<and> axial_extent (SweepSolid (MakePipeShell
              (Wire [main_helix Screw_init 6 1 10, lead_out_helix Screw_init 6 1]) True 1
              [thread_profile_wire 6 1 10])) = 12.45
   \<and> (10::real) \<le> 12.45"
proof -
  have h1: "(0::real) < 6" and h2: "(0::real) < 1" and h3: "(1::real) < 10" by simp_all
  have h4: "isReady plain_kernel (thread_sweep Screw_init 6 1 10)"
    by (simp add: plain_kernel_def)
  note r = CreateThreadCutter_coverage [OF h1 h2 h3, of Screw_init plain_kernel]
  have a: "trotations 1 10 = 11" using r [THEN conjunct1] by simp
  have b: "main_helix Screw_init 6 1 10
             = Rotate (0, 0, 0) (1, 0, 0) 180 (MakeLongHelix 1 11 3 0 False)"
    using r [THEN conjunct2, THEN conjunct1] by (simp add: Screw_init_def)
  have c: "CreateThreadCutter plain_kernel Screw_init 6 1 10 =
       Inr (SweepSolid (MakePipeShell
              (Wire [main_helix Screw_init 6 1 10, lead_out_helix Screw_init 6 1]) True 1
              [thread_profile_wire 6 1 10]))"
    using r [THEN conjunct2, THEN conjunct2, THEN conjunct2, THEN conjunct2, THEN conjunct1] h4
    by blast
  have e: "axial_extent (SweepSolid (MakePipeShell
              (Wire [main_helix Screw_init 6 1 10, lead_out_helix Screw_init 6 1]) True 1
              [thread_profile_wire 6 1 10])) = 12.45"
    using r [THEN conjunct2, THEN conjunct2, THEN conjunct2, THEN conjunct2, THEN conjunct2,
             THEN spec, THEN mp, OF c, THEN conjunct1]
    by simp
  have f: "(10::real) \<le> 12.45" by simp
  from h1 h2 h3 h4 a b c e f show ?thesis by (intro conjI)
qed

text \<open>
  Claim C5. When the pipe-shell sweep of \<^verbatim>\<open>CreateThreadCutter\<close> is not ready, the call
  raises the construction error and returns no shape, and so does \<^verbatim>\<open>makeShellthread\<close>,
  which calls it. The kernel is arbitrary: the error is raised also when every other
  sweep would be ready, so no second sweep with other parameters is tried.
\<close>

theorem CreateThreadCutter_sweep_failure:
  assumes "\<not> isReady k (thread_sweep self dia P blen)"
  shows "(P \<noteq> 0 \<longrightarrow> CreateThreadCutter k self dia P blen =
            Inl (RuntimeError ''Failed to create shell thread: could not sweep thread''))
    \<and> (\<forall>s. CreateThreadCutter k self dia P blen \<noteq> Inr s)
    \<and> (\<forall>s. makeShellthread k self dia P blen withcham ztop tlen \<noteq> Inr s)"
  using assms by (simp add: CreateThreadCutter_def makeShellthread_def Let_def)

theorem CreateThreadCutter_sweep_failure_witness:
  "\<not> isReady (refusing_kernel (thread_sweep Screw_init 6 1 10)) (thread_sweep Screw_init 6 1 10)
   \<and> (1::real) \<noteq> 0
   \<and> CreateThreadCutter (refusing_kernel (thread_sweep Screw_init 6 1 10)) Screw_init 6 1 10 =
       Inl (RuntimeError ''Failed to create shell thread: could not sweep thread'')"
  using CreateThreadCutter_sweep_failure
          [of "refusing_kernel (thread_sweep Screw_init 6 1 10)" Screw_init 6 1 10]
  by (simp add: refusing_kernel_def)

text \<open>
  Claim C4. In \<^verbatim>\<open>makeShellthread\<close>, with \<open>tlen\<close> replaced by \<open>blen\<close> when it is
  negative, a pitch \<open>P > 0\<close> and a sweep that is ready, the body is cut by the cutter
  solid translated by \<open>-max (blen - tlen + P/2) (5P/8)\<close> along the axis: the
  translation is applied to the cutter before the cut.
\<close>

theorem makeShellthread_cutter_offset:
  assumes "0 < P" and "isReady k (thread_sweep self dia P blen)"
  shows "makeShellthread k self dia P blen withcham ztop tlen =
     Inr (Translate (0, 0, ztop)
       (Shell (filter (\<lambda>x. \<not> \<bar>snd (snd (CenterOfMass k x))\<bar> < 0.0000001)
          (Faces k
             (Cut (Rotate (0, 0, 0) (0, 0, 1) 90 (makeShellthread_base_body self dia P blen withcham))
                  (Translate (0, 0, - max (blen - (if tlen < 0 then blen else tlen) + P / 2) (5 * P / 8))
                     (SweepSolid (thread_sweep self dia P blen))))))))"
proof -
  have off: "makeShellthread_toffset P blen (if tlen < 0 then blen else tlen)
               = max (blen - (if tlen < 0 then blen else tlen) + P / 2) (5 * P / 8)"
    by (simp only: makeShellthread_toffset_max)
  have cutter: "CreateThreadCutter k self dia P blen = Inr (SweepSolid (thread_sweep self dia P blen))"
    using assms by (simp add: CreateThreadCutter_def Let_def)
  show ?thesis
    unfolding makeShellthread_def Let_def cutter off threaded_solid_def
    by (simp split: option.split)
qed

theorem makeShellthread_cutter_offset_witness:
  "(0::real) < 1 \<and> isReady plain_kernel (thread_sweep Screw_init 6 1 10)
   \<and> makeShellthread plain_kernel Screw_init 6 1 10 True 0 4 =
       Inr (Translate (0, 0, 0)
         (Shell (filter (\<lambda>x. \<not> \<bar>snd (snd (CenterOfMass plain_kernel x))\<bar> < 0.0000001)
            (Faces plain_kernel
               (Cut (Rotate (0, 0, 0) (0, 0, 1) 90 (makeShellthread_base_body Screw_init 6 1 10 True))
                    (Translate (0, 0, - 6.5) (SweepSolid (thread_sweep Screw_init 6 1 10))))))))"
  using makeShellthread_cutter_offset [of 1 plain_kernel Screw_init 6 10 True 0 4]
  by (simp add: plain_kernel_def)

text \<open>
  Claim C9. For a pitch \<open>P > 0\<close> the clamped offset of \<^verbatim>\<open>makeShellthread\<close> is at least
  \<open>5P/8\<close>, which is positive, so the test \<^verbatim>\<open>toffset < 0\<close> fails and the branch that
  builds the cap is never entered.
\<close>

theorem makeShellthread_cap_unreachable:
  assumes "0 < P"
  shows "5 * P / 8 \<le> makeShellthread_toffset P blen (if tlen < 0 then blen else tlen)
    \<and> 0 < 5 * P / 8
    \<and> \<not> makeShellthread_toffset P blen (if tlen < 0 then blen else tlen) < 0
    \<and> makeShellthread_cap self dia
         (makeShellthread_toffset P blen (if tlen < 0 then blen else tlen)) = None"
  using assms by (simp add: makeShellthread_toffset_def makeShellthread_cap_def Let_def)

theorem makeShellthread_cap_unreachable_witness:
  "(0::real) < 1
   \<and> makeShellthread_toffset 1 10 10 = 5 / 8
   \<and> makeShellthread_cap Screw_init 6 (makeShellthread_toffset 1 10 (if (- 1::real) < 0 then 10 else - 1)) = None"
  using makeShellthread_cap_unreachable [of 1 10 "- 1" Screw_init 6]
  by (simp add: makeShellthread_toffset_def)

subsection \<open>Length parsing\<close>

lemmas parse_defs = inch_item_def py_float_def py_strip_def py_whitespace_def
  parse_mantissa_def parse_exponent_def is_digit_def digits_val_def digit_val_def

lemma inch_total_sum:
  "list_all2 (\<lambda>t v. inch_item t = Inr v) ts vs \<Longrightarrow> inch_total acc ts = Inr (acc + sum_list vs)"
  by (induction arbitrary: acc rule: list_all2_induct) (simp_all add: add.assoc)

lemma inch_total_error:
  "inch_item t = Inl err \<Longrightarrow> t \<in> set ts \<Longrightarrow> \<exists>err'. inch_total acc ts = Inl err'"
  by (induction ts arbitrary: acc) (auto split: sum.splits)

lemma is_digit_not_special:
  "is_digit c \<Longrightarrow> c \<notin> set py_whitespace \<and> c \<noteq> CHR ''-'' \<and> c \<noteq> CHR ''+'' \<and> c \<noteq> CHR ''e''
     \<and> c \<noteq> CHR ''E'' \<and> c \<noteq> CHR ''i'' \<and> c \<noteq> CHR ''n'' \<and> c \<noteq> CHR '' '' \<and> c \<noteq> CHR ''/''
     \<and> c \<noteq> CHR ''.''"
  by (auto simp: is_digit_def py_whitespace_def)

lemma strip_keeps:
  assumes "s \<noteq> []" and "hd s \<notin> set chars" and "last s \<notin> set chars"
  shows "py_strip chars s = s"
proof -
  have a: "dropWhile (\<lambda>c. c \<in> set chars) s = s"
    using assms(1,2) by (cases s) simp_all
  have "rev s \<noteq> []" using assms(1) by simp
  moreover have "hd (rev s) \<notin> set chars" using assms(1,3) by (simp add: hd_rev)
  ultimately have b: "dropWhile (\<lambda>c. c \<in> set chars) (rev s) = rev s"
    by (cases "rev s") simp_all
  show ?thesis by (simp add: py_strip_def a b)
qed

lemma digit_string_ends:
  assumes "digit_string ds"
  shows "is_digit (hd ds)" and "is_digit (last ds)"
  using assms by (auto simp: digit_string_def list_all_iff)

lemma py_float_digits:
  assumes "digit_string ds"
  shows "py_float ds = Inr (real (digits_val ds))"
proof -
  from assms have ne: "ds \<noteq> []" and all: "list_all is_digit ds"
    by (simp_all add: digit_string_def)
  have st: "py_strip py_whitespace ds = ds"
    using ne digit_string_ends [OF assms] is_digit_not_special by (intro strip_keeps) auto
  obtain c r where ds: "ds = c # r" using ne by (cases ds) auto
  have c: "is_digit c" using all ds by simp
  have sg: "c \<noteq> CHR ''-''" "c \<noteq> CHR ''+''" using is_digit_not_special [OF c] by auto
  have noe: "\<forall>x \<in> set ds. x \<noteq> CHR ''e'' \<and> x \<noteq> CHR ''E''"
    using all is_digit_not_special by (auto simp: list_all_iff)
  have tw: "takeWhile (\<lambda>c. c \<noteq> CHR ''e'' \<and> c \<noteq> CHR ''E'') ds = ds"
    using noe by (simp add: takeWhile_eq_all_conv)
  have dw: "dropWhile (\<lambda>c. c \<noteq> CHR ''e'' \<and> c \<noteq> CHR ''E'') ds = []"
    using noe by (simp add: dropWhile_eq_Nil_conv)
  have td: "takeWhile is_digit ds = ds" "dropWhile is_digit ds = []"
    using all by (simp_all add: takeWhile_eq_all_conv dropWhile_eq_Nil_conv list_all_iff)
  have pm: "parse_mantissa ds = Some (digits_val ds, 0)"
    using ne by (simp add: parse_mantissa_def td)
  have pe: "parse_exponent [] = Some 0" by (simp add: parse_exponent_def)
  have s2: "(case ds of [] \<Rightarrow> (False, ds)
               | c # r \<Rightarrow> (if c = CHR ''-'' then (True, r)
                           else if c = CHR ''+'' then (False, r)
                           else (False, ds))) = (False, ds)"
    using sg by (simp add: ds)
  show ?thesis
    unfolding py_float_def Let_def st s2
    by (simp add: tw dw pm pe)
qed


lemma strip_suffix:
  assumes "body \<noteq> []" and "hd body \<notin> set chars" and "last body \<notin> set chars"
    and "set suf \<subseteq> set chars"
  shows "py_strip chars (body @ suf) = body"
proof -
  have a: "dropWhile (\<lambda>c. c \<in> set chars) (body @ suf) = body @ suf"
    using assms(1,2) by (cases body) simp_all
  have b: "dropWhile (\<lambda>c. c \<in> set chars) (rev suf @ rev body)
             = dropWhile (\<lambda>c. c \<in> set chars) (rev body)"
    using assms(4) by (intro dropWhile_append2) auto
  have "rev body \<noteq> []" using assms(1) by simp
  moreover have "hd (rev body) \<notin> set chars" using assms(1,3) by (simp add: hd_rev)
  ultimately have c: "dropWhile (\<lambda>c. c \<in> set chars) (rev body) = rev body"
    by (cases "rev body") simp_all
  show ?thesis by (simp add: py_strip_def a b c)
qed

lemma no_i_not_in: "CHR ''i'' \<notin> set s \<Longrightarrow> \<not> py_in_str ''in'' s"
  by (induction s) auto

lemma in_suffix: "py_in_str ''in'' (xs @ ''in'')"
  by (induction xs) simp_all

lemma split_no_sep: "sep \<notin> set w \<Longrightarrow> py_split sep w = [w]"
  by (induction w) auto

lemma split_at_sep: "sep \<notin> set w \<Longrightarrow> py_split sep (w @ sep # rest) = w # py_split sep rest"
  by (induction w) auto

lemma digit_string_chars:
  assumes "digit_string ds" and "c \<in> set ds"
  shows "c \<noteq> CHR ''i''" "c \<noteq> CHR ''n''" "c \<noteq> CHR '' ''" "c \<noteq> CHR ''/''"
  using assms is_digit_not_special [of c] by (auto simp: digit_string_def list_all_iff)

lemma getLength_digits:
  assumes "digit_string ds"
  shows "getLength self (PyStr ds) = Inr (PyFloat (real (digits_val ds)))"
proof -
  have "CHR ''i'' \<notin> set ds" using digit_string_chars(1) [OF assms] by blast
  then have "\<not> py_in_str ''in'' ds" by (rule no_i_not_in)
  then show ?thesis by (simp add: py_float_digits [OF assms])
qed

lemma getLength_mixed_fraction:
  assumes w: "digit_string w" and n: "digit_string n" and d: "digit_string d"
    and nz: "digits_val d \<noteq> 0"
  shows "getLength self (PyStr (w @ '' '' @ n @ ''/'' @ d @ ''in''))
           = Inr (PyFloat ((real (digits_val w) + real (digits_val n) / real (digits_val d)) * 25.4))"
proof -
  define frac where "frac = n @ CHR ''/'' # d"
  define body where "body = w @ CHR '' '' # frac"
  have s: "w @ '' '' @ n @ ''/'' @ d @ ''in'' = body @ ''in''"
    by (simp add: body_def frac_def)
  have wne: "w \<noteq> []" and dne: "d \<noteq> []" using w d by (simp_all add: digit_string_def)
  have hd_body: "hd body = hd w" using wne by (simp add: body_def)
  have last_body: "last body = last d" using dne by (simp add: body_def frac_def)
  have hb: "hd body \<notin> set ''in''"
    unfolding hd_body using digit_string_chars(1,2) [OF w, of "hd w"] wne by auto
  have lb: "last body \<notin> set ''in''"
    unfolding last_body using digit_string_chars(1,2) [OF d, of "last d"] dne by auto
  have strip: "py_strip ''in'' (body @ ''in'') = body"
    using hb lb by (intro strip_suffix) (simp_all add: body_def)
  have wsp: "CHR '' '' \<notin> set w" using digit_string_chars(3) [OF w] by blast
  have fsp: "CHR '' '' \<notin> set frac"
    using digit_string_chars(3) [OF n] digit_string_chars(3) [OF d] by (auto simp: frac_def)
  have split: "py_split (CHR '' '') body = [w, frac]"
    unfolding body_def by (simp add: split_at_sep [OF wsp] split_no_sep [OF fsp])
  have wsl: "CHR ''/'' \<notin> set w" using digit_string_chars(4) [OF w] by blast
  have nsl: "CHR ''/'' \<notin> set n" using digit_string_chars(4) [OF n] by blast
  have dsl: "CHR ''/'' \<notin> set d" using digit_string_chars(4) [OF d] by blast
  have iw: "inch_item w = Inr (real (digits_val w))"
    using wsl by (simp add: inch_item_def py_float_digits [OF w])
  have fs: "py_split (CHR ''/'') frac = [n, d]"
    unfolding frac_def by (simp add: split_at_sep [OF nsl] split_no_sep [OF dsl])
  have ifr: "inch_item frac = Inr (real (digits_val n) / real (digits_val d))"
    using nz by (simp add: inch_item_def fs py_float_digits [OF n] py_float_digits [OF d])
        (simp add: frac_def)
  have tot: "inch_total 0 [w, frac] = Inr (real (digits_val w) + real (digits_val n) / real (digits_val d))"
    by (simp add: iw ifr)
  show ?thesis
    unfolding s by (simp add: in_suffix strip split tot del: inch_total.simps)
qed

text \<open>
  Claim C8. \<^verbatim>\<open>getLength("10")\<close> is \<open>10.0\<close>, \<^verbatim>\<open>getLength("1/2in")\<close> is \<open>12.7\<close> and
  \<^verbatim>\<open>getLength("1 1/2in")\<close> is \<open>38.1\<close> (exactly, hence within \<open>1e-6\<close>). In general a
  string without \<^verbatim>\<open>in\<close> is parsed as a decimal by \<^verbatim>\<open>float\<close>, a string of digits giving
  its number; and a string with \<^verbatim>\<open>in\<close> is cut at the spaces into terms, whole or
  fractional, whose values are summed and multiplied by \<open>25.4\<close>, so that
  \<^verbatim>\<open>"w n/d" + "in"\<close> for digit strings \<open>w\<close>, \<open>n\<close>, \<open>d\<close> is \<open>(w + n/d) 25.4\<close>.
\<close>

theorem getLength_parsing:
  "getLength self (PyStr ''10'') = Inr (PyFloat 10.0)
   \<and> getLength self (PyStr ''1/2in'') = Inr (PyFloat 12.7)
   \<and> getLength self (PyStr ''1 1/2in'') = Inr (PyFloat 38.1)
   \<and> (\<not> py_in_str ''in'' s \<longrightarrow>
        getLength self (PyStr s) =
          (case py_float s of Inl err \<Rightarrow> Inl err | Inr x \<Rightarrow> Inr (PyFloat x)))
   \<and> (digit_string ds \<longrightarrow> getLength self (PyStr ds) = Inr (PyFloat (real (digits_val ds))))
   \<and> (py_in_str ''in'' s
        \<and> list_all2 (\<lambda>t v. inch_item t = Inr v) (py_split (CHR '' '') (py_strip ''in'' s)) vs \<longrightarrow>
        getLength self (PyStr s) = Inr (PyFloat (sum_list vs * 25.4)))
   \<and> (digit_string w \<and> digit_string n \<and> digit_string d \<and> digits_val d \<noteq> 0 \<longrightarrow>
        getLength self (PyStr (w @ '' '' @ n @ ''/'' @ d @ ''in''))
          = Inr (PyFloat ((real (digits_val w) + real (digits_val n) / real (digits_val d)) * 25.4)))"
proof -
  have a: "getLength self (PyStr ''10'') = Inr (PyFloat 10.0)"
    by (simp add: parse_defs)
  have b: "getLength self (PyStr ''1/2in'') = Inr (PyFloat 12.7)"
    by (simp add: parse_defs)
  have c: "getLength self (PyStr ''1 1/2in'') = Inr (PyFloat 38.1)"
    by (simp add: parse_defs)
  have d: "\<not> py_in_str ''in'' s \<longrightarrow>
        getLength self (PyStr s) =
          (case py_float s of Inl err \<Rightarrow> Inl err | Inr x \<Rightarrow> Inr (PyFloat x))"
    by simp
  have d': "digit_string ds \<longrightarrow> getLength self (PyStr ds) = Inr (PyFloat (real (digits_val ds)))"
    using getLength_digits [of ds self] by blast
  have e: "py_in_str ''in'' s
        \<and> list_all2 (\<lambda>t v. inch_item t = Inr v) (py_split (CHR '' '') (py_strip ''in'' s)) vs \<longrightarrow>
        getLength self (PyStr s) = Inr (PyFloat (sum_list vs * 25.4))"
  proof
    assume h: "py_in_str ''in'' s
        \<and> list_all2 (\<lambda>t v. inch_item t = Inr v) (py_split (CHR '' '') (py_strip ''in'' s)) vs"
    then have "inch_total 0 (py_split (CHR '' '') (py_strip ''in'' s)) = Inr (0 + sum_list vs)"
      by (intro inch_total_sum) simp
    with h show "getLength self (PyStr s) = Inr (PyFloat (sum_list vs * 25.4))"
      by (simp add: Let_def)
  qed
  have e': "digit_string w \<and> digit_string n \<and> digit_string d \<and> digits_val d \<noteq> 0 \<longrightarrow>
        getLength self (PyStr (w @ '' '' @ n @ ''/'' @ d @ ''in''))
          = Inr (PyFloat ((real (digits_val w) + real (digits_val n) / real (digits_val d)) * 25.4))"
    using getLength_mixed_fraction [of w n d self] by blast
  from a b c d d' e e' show ?thesis by (intro conjI)
qed

theorem getLength_parsing_witness:
  "\<not> py_in_str ''in'' ''2.5''
   \<and> getLength Screw_init (PyStr ''2.5'') = Inr (PyFloat 2.5)
   \<and> digit_string ''25''
   \<and> getLength Screw_init (PyStr ''25'') = Inr (PyFloat 25)
   \<and> py_in_str ''in'' ''2 3/4in''
   \<and> list_all2 (\<lambda>t v. inch_item t = Inr v) (py_split (CHR '' '') (py_strip ''in'' ''2 3/4in'')) [2, 3 / 4]
   \<and> getLength Screw_init (PyStr ''2 3/4in'') = Inr (PyFloat 69.85)
   \<and> digit_string ''12'' \<and> digit_string ''3'' \<and> digit_string ''8'' \<and> digits_val ''8'' \<noteq> 0
   \<and> getLength Screw_init (PyStr ''12 3/8in'') = Inr (PyFloat 314.325)"
proof -
  have h1: "\<not> py_in_str ''in'' ''2.5''" by simp
  have f1: "py_float ''2.5'' = Inr 2.5" by (simp add: parse_defs)
  have h2: "py_in_str ''in'' ''2 3/4in''" by simp
  have h3: "list_all2 (\<lambda>t v. inch_item t = Inr v)
              (py_split (CHR '' '') (py_strip ''in'' ''2 3/4in'')) [2, 3 / 4]"
    by (simp add: parse_defs)
  have h4: "digit_string ''25''" by (simp add: digit_string_def is_digit_def)
  have h5: "digit_string ''12''" "digit_string ''3''" "digit_string ''8''"
    by (simp_all add: digit_string_def is_digit_def)
  have h6: "digits_val ''8'' \<noteq> 0" by (simp add: digits_val_def digit_val_def)
  note t1 = getLength_parsing [of Screw_init "''2.5''" "''25''" "[]" "''12''" "''3''" "''8''"]
  note t2 = getLength_parsing [of Screw_init "''2 3/4in''" "''25''" "[2, 3 / 4]" "''12''" "''3''" "''8''"]
  from t1 h1 f1 have r1: "getLength Screw_init (PyStr ''2.5'') = Inr (PyFloat 2.5)" by simp
  from t1 h4 have r4: "getLength Screw_init (PyStr ''25'') = Inr (PyFloat 25)"
    by (simp add: digits_val_def digit_val_def)
  from t2 h2 h3 have r2: "getLength Screw_init (PyStr ''2 3/4in'') = Inr (PyFloat 69.85)" by simp
  from t1 h5 h6 have r5: "getLength Screw_init (PyStr ''12 3/8in'') = Inr (PyFloat 314.325)"
    by (simp add: digits_val_def digit_val_def)
  from h1 r1 h4 r4 h2 h3 r2 h5 h6 r5 show ?thesis by (intro conjI)
qed

subsection \<open>The chamfer cutter\<close>

lemma cham_t_pos: "0 < P \<Longrightarrow> 0 < P * sqrt3 / 2 * 17 / 24"
  by (simp add: sqrt3_def)

lemma cutChamfer_profile_extent:
  assumes "0 < P"
  shows "profile_extent (cutChamfer_profile dia P l) = P + 3 * (P * sqrt 3 / 2 * 17 / 24)"
proof -
  define c where "c = P * sqrt3 / 2 * 17 / 24"
  have c: "0 < c" unfolding c_def using assms by (rule cham_t_pos)
  have zs: "profile_zs (cutChamfer_profile dia P l) = [- l, - l, - l + c + c, - l - P - c, - l - P - c]"
    by (simp add: cutChamfer_profile_def AddPoint_def c_def Let_def)
  have mx: "Max {- l, - l + c + c, - l - P - c} = - l + c + c"
    using c assms by (simp add: max_def)
  have mn: "Min {- l, - l + c + c, - l - P - c} = - l - P - c"
    using c assms by (simp add: min_def)
  have "profile_extent (cutChamfer_profile dia P l) = P + 3 * c"
    unfolding profile_extent_def zs using mx mn by simp
  then show ?thesis by (simp add: c_def sqrt3_def)
qed

text \<open>
  Claim C6, as stated, fails: the axial extent of the chamfer cutter is not
  \<open>P \<surd>3/2 17/24\<close>. At \<open>d = 10\<close>, \<open>P = 1\<close>, \<open>length = 5\<close> the solid built on an
  empty cache has another extent.
\<close>

theorem cutChamfer_extent_counterexample:
  "axial_extent (geometry (heap (snd (cutChamfer Screw_init 10 1 5 empty_world)) ! 0))
     \<noteq> 1 * sqrt 3 / 2 * 17 / 24"
proof -
  define x :: real where "x = 1 * sqrt 3 / 2 * 17 / 24"
  have x: "0 \<le> x" by (simp add: x_def)
  have g: "geometry (heap (snd (cutChamfer Screw_init 10 1 5 empty_world)) ! 0)
             = Revolve (GetFace (cutChamfer_profile 10 1 5)) (0, 0, 0) (0, 0, 1) 360"
    by (simp add: cutChamfer_def FSGetKey_def empty_world_def new_obj_def RevolveZ_def Let_def)
  have "profile_extent (cutChamfer_profile 10 1 5) = 1 + 3 * (1 * sqrt 3 / 2 * 17 / 24)"
    by (rule cutChamfer_profile_extent) simp
  then have e: "profile_extent (cutChamfer_profile 10 1 5) = 1 + 3 * x"
    by (simp only: x_def)
  have "profile_extent (cutChamfer_profile 10 1 5) \<noteq> x"
    unfolding e using x by linarith
  then have "axial_extent (Revolve (GetFace (cutChamfer_profile 10 1 5)) (0, 0, 0) (0, 0, 1) 360) \<noteq> x"
    by simp
  then show ?thesis unfolding g x_def .
qed

text \<open>
  Claim C6, amended. For \<open>P > 0\<close>, on a cache without the key, \<^verbatim>\<open>cutChamfer\<close> returns a
  new solid, the revolution about Z of a face given in closed form; its axial extent is
  \<open>P + 3 t\<close> with \<open>t = P \<surd>3/2 17/24\<close> (the profile runs from \<open>-length - P - t\<close> up to
  \<open>-length + 2 t\<close>), no boolean operation occurs in it, and it is stored under the key
  made of the operation name and \<open>(d, P, length)\<close>, so that the same call made again
  returns the stored solid and changes nothing.
\<close>

theorem cutChamfer_solid:
  assumes "0 < P"
    and "FSCache w (''CrhamferTool'', [PyFloat d, PyFloat P, PyFloat l]) = None"
  shows "cutChamfer self d P l w =
           (One (length (heap w)),
            w \<lparr> heap := heap w @
                   [\<lparr> geometry = Revolve (GetFace (cutChamfer_profile d P l)) (0, 0, 0) (0, 0, 1) 360,
                      placement = \<lparr> Base = (0, 0, 0), Rotation = (0, 0, 0, 1) \<rparr> \<rparr>],
                 FSCache := (FSCache w)((''CrhamferTool'', [PyFloat d, PyFloat P, PyFloat l])
                                \<mapsto> One (length (heap w))) \<rparr>)
    \<and> axial_extent (Revolve (GetFace (cutChamfer_profile d P l)) (0, 0, 0) (0, 0, 1) 360)
         = P + 3 * (P * sqrt 3 / 2 * 17 / 24)
    \<and> boolean_free (Revolve (GetFace (cutChamfer_profile d P l)) (0, 0, 0) (0, 0, 1) 360)
    \<and> cutChamfer self d P l (snd (cutChamfer self d P l w))
         = (One (length (heap w)), snd (cutChamfer self d P l w))"
proof -
  have first: "cutChamfer self d P l w =
           (One (length (heap w)),
            w \<lparr> heap := heap w @
                   [\<lparr> geometry = Revolve (GetFace (cutChamfer_profile d P l)) (0, 0, 0) (0, 0, 1) 360,
                      placement = \<lparr> Base = (0, 0, 0), Rotation = (0, 0, 0, 1) \<rparr> \<rparr>],
                 FSCache := (FSCache w)((''CrhamferTool'', [PyFloat d, PyFloat P, PyFloat l])
                                \<mapsto> One (length (heap w))) \<rparr>)"
    using assms(2) by (simp add: cutChamfer_def FSGetKey_def new_obj_def RevolveZ_def Let_def)
  have ext: "axial_extent (Revolve (GetFace (cutChamfer_profile d P l)) (0, 0, 0) (0, 0, 1) 360)
         = P + 3 * (P * sqrt 3 / 2 * 17 / 24)"
    using cutChamfer_profile_extent [OF assms(1)] by simp
  have bf: "boolean_free (Revolve (GetFace (cutChamfer_profile d P l)) (0, 0, 0) (0, 0, 1) 360)"
    by simp
  have again: "cutChamfer self d P l (snd (cutChamfer self d P l w))
         = (One (length (heap w)), snd (cutChamfer self d P l w))"
    unfolding first by (simp add: cutChamfer_def FSGetKey_def)
  from first ext bf again show ?thesis by blast
qed

theorem cutChamfer_solid_witness:
  "(0::real) < 1
   \<and> FSCache empty_world (''CrhamferTool'', [PyFloat 10, PyFloat 1, PyFloat 5]) = None
   \<and> fst (cutChamfer Screw_init 10 1 5 empty_world) = One 0
   \<and> axial_extent (Revolve (GetFace (cutChamfer_profile 10 1 5)) (0, 0, 0) (0, 0, 1) 360)
        = 1 + 3 * (1 * sqrt 3 / 2 * 17 / 24)
   \<and> cutChamfer Screw_init 10 1 5 (snd (cutChamfer Screw_init 10 1 5 empty_world))
        = (One 0, snd (cutChamfer Screw_init 10 1 5 empty_world))"
proof -
  have h1: "(0::real) < 1" by simp
  have h2: "FSCache empty_world (''CrhamferTool'', [PyFloat 10, PyFloat 1, PyFloat 5]) = None"
    by (simp add: empty_world_def)
  have l0: "length (heap empty_world) = 0" by (simp add: empty_world_def)
  note r = cutChamfer_solid [OF h1 h2, of Screw_init, unfolded l0]
  have a: "fst (cutChamfer Screw_init 10 1 5 empty_world) = One 0"
    by (simp only: r [THEN conjunct1] fst_conv)
  have b: "axial_extent (Revolve (GetFace (cutChamfer_profile 10 1 5)) (0, 0, 0) (0, 0, 1) 360)
        = 1 + 3 * (1 * sqrt 3 / 2 * 17 / 24)"
    by (rule r [THEN conjunct2, THEN conjunct1])
  have c: "cutChamfer Screw_init 10 1 5 (snd (cutChamfer Screw_init 10 1 5 empty_world))
        = (One 0, snd (cutChamfer Screw_init 10 1 5 empty_world))"
    by (rule r [THEN conjunct2, THEN conjunct2, THEN conjunct2])
  from h1 h2 a b c show ?thesis by (intro conjI)
qed

subsection \<open>The recess tools and the cache\<close>

lemma makeIso10664_3_hit:
  "FSCache w (''HexalobularTool'', [PyStr RType, PyFloat t_hl, PyFloat h_hl]) = Some c \<Longrightarrow>
   makeIso10664_3 k tbl self RType t_hl h_hl w = Inr (c, w)"
  by (simp add: makeIso10664_3_def FSGetKey_def)

lemma makeIso10664_3_miss:
  assumes "FSCache w (''HexalobularTool'', [PyStr RType, PyFloat t_hl, PyFloat h_hl]) = None"
    and "makeIso10664_3_build k tbl self RType t_hl = Inr (g0, g1)"
  shows "\<exists>w1. makeIso10664_3 k tbl self RType t_hl h_hl w
              = Inr (Pair (length (heap w)) (Suc (length (heap w))), w1)
          \<and> length (heap w1) = length (heap w) + 2
          \<and> Base_of w1 (length (heap w)) = (0, 0, h_hl)
          \<and> Base_of w1 (Suc (length (heap w))) = (0, 0, h_hl)
          \<and> FSCache w1 (''HexalobularTool'', [PyStr RType, PyFloat t_hl, PyFloat h_hl])
               = Some (Pair (length (heap w)) (Suc (length (heap w))))"
  using assms
  by (simp add: makeIso10664_3_def FSGetKey_def new_obj_def set_Base_def Base_of_def Let_def
      nth_append)


lemma makeIso10664_3_build_ok:
  assumes "tbl RType = Some (A, B, R)"
    and "A \<noteq> 0"
    and "4 * B - 2 * sqrt 3 * A + (4 * sqrt 3 - 8) * R \<noteq> 0"
    and "4 * (- ((B + sqrt 3 * (2 * R - A)) * B + (A - 4 * R) * A)
              / (4 * B - 2 * sqrt 3 * A + (4 * sqrt 3 - 8) * R)) + 4 * R \<noteq> 0"
    and "- 1 \<le> A / (4 * (- ((B + sqrt 3 * (2 * R - A)) * B + (A - 4 * R) * A)
              / (4 * B - 2 * sqrt 3 * A + (4 * sqrt 3 - 8) * R)) + 4 * R)
            - (2 * R) / (4 * (- ((B + sqrt 3 * (2 * R - A)) * B + (A - 4 * R) * A)
              / (4 * B - 2 * sqrt 3 * A + (4 * sqrt 3 - 8) * R)) + 4 * R)"
    and "A / (4 * (- ((B + sqrt 3 * (2 * R - A)) * B + (A - 4 * R) * A)
              / (4 * B - 2 * sqrt 3 * A + (4 * sqrt 3 - 8) * R)) + 4 * R)
            - (2 * R) / (4 * (- ((B + sqrt 3 * (2 * R - A)) * B + (A - 4 * R) * A)
              / (4 * B - 2 * sqrt 3 * A + (4 * sqrt 3 - 8) * R)) + 4 * R) \<le> 1"
    and "\<And>s. 15 \<le> length (Faces k s)"
  shows "\<exists>g0 g1. makeIso10664_3_build k tbl self RType t_hl = Inr (g0, g1)"
proof -
  have f: "(length (Faces k s) < 15) = False" for s
    using assms(7) [of s] by simp
  have c1: "((A / 4.0) ^ 2 = 0 \<or> A = 0) = False"
    using assms(2) by simp
  have c2: "(4 * B - 2 * sqrt 3.0 * A + (4 * sqrt 3.0 - 8) * R = 0) = False"
    using assms(3) by simp
  have c3: "(4 * (- ((B + sqrt 3.0 * (2 * R - A)) * B + (A - 4 * R) * A)
              / (4 * B - 2 * sqrt 3.0 * A + (4 * sqrt 3.0 - 8) * R)) + 4 * R = 0) = False"
    using assms(4) by simp
  have c4: "(\<not> (- 1 \<le> A / (4 * (- ((B + sqrt 3.0 * (2 * R - A)) * B + (A - 4 * R) * A)
              / (4 * B - 2 * sqrt 3.0 * A + (4 * sqrt 3.0 - 8) * R)) + 4 * R)
            - (2 * R) / (4 * (- ((B + sqrt 3.0 * (2 * R - A)) * B + (A - 4 * R) * A)
              / (4 * B - 2 * sqrt 3.0 * A + (4 * sqrt 3.0 - 8) * R)) + 4 * R)
      \<and> A / (4 * (- ((B + sqrt 3.0 * (2 * R - A)) * B + (A - 4 * R) * A)
              / (4 * B - 2 * sqrt 3.0 * A + (4 * sqrt 3.0 - 8) * R)) + 4 * R)
            - (2 * R) / (4 * (- ((B + sqrt 3.0 * (2 * R - A)) * B + (A - 4 * R) * A)
              / (4 * B - 2 * sqrt 3.0 * A + (4 * sqrt 3.0 - 8) * R)) + 4 * R) \<le> 1)) = False"
    using assms(5,6) by simp
  show ?thesis
    unfolding makeIso10664_3_build_def Let_def
    by (simp only: assms(1) option.case prod.case c1 c2 c3 c4 f if_False sum.inject prod.inject
        simp_thms ex_simps)
qed

lemma sqrt3_bounds: "1.7 < sqrt (3::real)" "sqrt (3::real) < 1.8"
proof -
  show "1.7 < sqrt (3::real)" by (rule real_less_rsqrt) (simp add: power2_eq_square)
  show "sqrt (3::real) < 1.8" by (rule real_less_lsqrt) (simp_all add: power2_eq_square)
qed

lemma sample_build_ok:
  "\<exists>g0 g1. makeIso10664_3_build faceted_kernel sample_iso10664def self ''T20'' t_hl = Inr (g0, g1)"
proof -
  define D :: real where "D = 4 * 2.75 - 2 * sqrt 3 * 3.86 + (4 * sqrt 3 - 8) * 0.32"
  define N :: real where "N = (2.75 + sqrt 3 * (2 * 0.32 - 3.86)) * 2.75 + (3.86 - 4 * 0.32) * 3.86"
  define S :: real where "S = 4 * (- N / D) + 4 * 0.32"
  note b = sqrt3_bounds
  have D1: "D < - 2.5" and D2: "- 3.16 < D" using b by (simp_all add: D_def algebra_simps)
  have N1: "1.58 < N" using b by (simp add: N_def algebra_simps)
  have negD: "0 < - D" using D1 by simp
  have h: "0.5 * (- D) < N" using D2 N1 by simp
  have step: "(0.5 < N / (- D)) = (0.5 * (- D) < N)"
    by (rule pos_less_divide_eq [OF negD])
  have q: "0.5 < N / (- D)" unfolding step by (rule h)
  have "- N / D = N / (- D)" by simp
  with q have Ri: "0.5 < - N / D" by (simp only:)
  have S1: "3.22 \<le> S" using Ri by (simp add: S_def)
  have S0: "S \<noteq> 0" using S1 by simp
  have arg: "3.86 / S - (2 * 0.32) / S = 3.22 / S"
    by (simp add: diff_divide_distrib [symmetric])
  have a1: "- 1 \<le> 3.86 / S - (2 * 0.32) / S"
    unfolding arg using S1 by (simp add: pos_le_divide_eq)
  have a2: "3.86 / S - (2 * 0.32) / S \<le> 1"
    unfolding arg using S1 by (simp add: pos_divide_le_eq)
  have D0: "D \<noteq> 0" using D1 by simp
  have t: "sample_iso10664def ''T20'' = Some (3.86, 2.75, 0.32)"
    by (simp add: sample_iso10664def_def)
  have fc: "15 \<le> length (Faces faceted_kernel s)" for s
    by (simp add: faceted_kernel_def)
  have A0: "(3.86::real) \<noteq> 0" by simp
  show ?thesis
    by (rule makeIso10664_3_build_ok [where tbl = sample_iso10664def and RType = "''T20''",
          OF t A0 D0 [unfolded D_def] S0 [unfolded S_def N_def D_def]
          a1 [unfolded S_def N_def D_def] a2 [unfolded S_def N_def D_def] fc])
qed


lemma makeIso10664_3_stored:
  assumes "makeIso10664_3 k tbl self RType t_hl h_hl w = Inr (c, w1)"
  shows "FSCache w1 (''HexalobularTool'', [PyStr RType, PyFloat t_hl, PyFloat h_hl]) = Some c"
proof (cases "FSCache w (''HexalobularTool'', [PyStr RType, PyFloat t_hl, PyFloat h_hl])")
  case None
  with assms show ?thesis
    by (auto simp: makeIso10664_3_def FSGetKey_def new_obj_def set_Base_def Let_def
        split: sum.splits prod.splits)
next
  case (Some c')
  with assms show ?thesis
    by (simp add: makeIso10664_3_def FSGetKey_def)
qed

lemma set_Base_FSCache: "FSCache (set_Base r v w) = FSCache w"
  by (simp add: set_Base_def)

lemma set_Base_Base_of: "r < length (heap w) \<Longrightarrow> Base_of (set_Base r v w) r = v"
  by (simp add: set_Base_def Base_of_def)

text \<open>
  What holds of the hexalobular factory: after a call that returned, the same call
  returns the same pair and leaves the heap and the cache as they are, whatever was done
  to the placements in between.
\<close>

lemma makeIso10664_3_second_call:
  assumes "makeIso10664_3 k tbl self RType t_hl h_hl w = Inr (c, w1)"
  shows "makeIso10664_3 k tbl self RType t_hl h_hl (set_Base r v w1) = Inr (c, set_Base r v w1)"
  by (rule makeIso10664_3_hit) (simp add: set_Base_FSCache makeIso10664_3_stored [OF assms])

lemma makeAllen2_hit:
  "FSCache w (''Allen2Tool'', [PyFloat s_a, PyFloat t_a, PyFloat h_a, PyFloat t_2]) = Some (Pair r0 r1) \<Longrightarrow>
   makeAllen2 k self s_a t_a h_a t_2 w =
     Inr (Pair r0 r1,
          set_Placement r1 \<lparr> Base = (0, 0, h_a), Rotation = (0, 0, 0, 1) \<rparr>
            (set_Placement r0 \<lparr> Base = (0, 0, h_a), Rotation = (0, 0, 0, 1) \<rparr> w))"
  by (simp add: makeAllen2_def FSGetKey_def Let_def)

lemma makeAllen2_miss:
  assumes "FSCache w (''Allen2Tool'', [PyFloat s_a, PyFloat t_a, PyFloat h_a, PyFloat t_2]) = None"
    and "makeAllen2_build k self s_a t_a t_2 = Inr (g0, g1)"
  shows "\<exists>w1. makeAllen2 k self s_a t_a h_a t_2 w
              = Inr (Pair (length (heap w)) (Suc (length (heap w))), w1)
          \<and> length (heap w1) = length (heap w) + 2
          \<and> Base_of w1 (length (heap w)) = (0, 0, h_a)
          \<and> Base_of w1 (Suc (length (heap w))) = (0, 0, h_a)
          \<and> FSCache w1 (''Allen2Tool'', [PyFloat s_a, PyFloat t_a, PyFloat h_a, PyFloat t_2])
               = Some (Pair (length (heap w)) (Suc (length (heap w))))"
  using assms
  by (simp add: makeAllen2_def FSGetKey_def new_obj_def set_Base_def Base_of_def Let_def
      nth_append)

lemma set_Placement_Base_of:
  "r0 < length (heap w) \<Longrightarrow>
   Base_of (set_Placement r1 \<lparr> Base = v, Rotation = q \<rparr>
              (set_Placement r0 \<lparr> Base = v, Rotation = q \<rparr> w)) r0 = v"
  by (cases "r0 = r1") (simp_all add: set_Placement_def Base_of_def)

lemma set_Placement_length:
  "length (heap (set_Placement r pl w)) = length (heap w)"
  by (simp add: set_Placement_def)

lemma makeAllen2_build_ok:
  assumes "s_a \<noteq> 0" and "\<And>s. Faces k s \<noteq> []"
  shows "\<exists>g0 g1. makeAllen2_build k self s_a t_a t_2 = Inr (g0, g1)"
proof -
  have c1: "((s_a / 3.0) ^ 2 = 0 \<or> 2.0 * s_a / sqrt 3.0 = 0) = False"
    using assms(1) by simp
  have f: "(0 < length (Faces k s)) = True" for s
    using assms(2) [of s] by simp
  show ?thesis
  proof (cases "t_2 = 0.0")
    case True
    show ?thesis
      unfolding makeAllen2_build_def Let_def py_index_def
      by (simp only: True c1 f if_True if_False sum.case prod.case sum.inject prod.inject
          simp_thms ex_simps)
  next
    case False
    show ?thesis
      unfolding makeAllen2_build_def Let_def py_index_def
      by (simp only: False c1 f if_True if_False sum.case prod.case sum.inject prod.inject
          simp_thms ex_simps)
  qed
qed

text \<open>
  Claim C3. A repeated call of a recess factory finds the key and returns the cached
  pair without building: that part holds. The placement does not: the cached objects are
  shared with their callers, and only \<^verbatim>\<open>makeAllen2\<close> assigns the placement on a hit.
  Here \<^verbatim>\<open>makeIso10664_3('T20', 3.0, 0)\<close> is called, its caller moves the returned solid
  to height 5, and the same call is made again: it returns the same pair with the solid
  still at height 5, not at the requested height 0. The same run of \<^verbatim>\<open>makeAllen2\<close>
  returns the solid at the requested height 2, and neither second call adds an object.
\<close>

theorem recess_tool_hit_after_move:
  "makeIso10664_3 faceted_kernel sample_iso10664def Screw_init ''T20'' 3.0 0 empty_world
      = Inr (Pair 0 1, iso_world)
   \<and> Base_of iso_world 0 = (0, 0, 0)
   \<and> makeIso10664_3 faceted_kernel sample_iso10664def Screw_init ''T20'' 3.0 0
        (set_Base 0 (0, 0, 5) iso_world)
      = Inr (Pair 0 1, set_Base 0 (0, 0, 5) iso_world)
   \<and> Base_of (set_Base 0 (0, 0, 5) iso_world) 0 = (0, 0, 5)
   \<and> makeAllen2 faceted_kernel Screw_init 3.0 1.5 2.0 0.0 empty_world = Inr (Pair 0 1, allen_world)
   \<and> Base_of allen_world 0 = (0, 0, 2.0)
   \<and> (case makeAllen2 faceted_kernel Screw_init 3.0 1.5 2.0 0.0 (set_Base 0 (0, 0, 5) allen_world) of
         Inl err \<Rightarrow> False
       | Inr (c, w) \<Rightarrow> c = Pair 0 1 \<and> Base_of w 0 = (0, 0, 2.0)
                        \<and> length (heap w) = length (heap allen_world))"
proof -
  have e0: "FSCache empty_world key = None" for key by (simp add: empty_world_def)
  have l0: "length (heap empty_world) = 0" by (simp add: empty_world_def)
  obtain g0 g1 where b: "makeIso10664_3_build faceted_kernel sample_iso10664def Screw_init ''T20'' 3.0
                           = Inr (g0, g1)"
    using sample_build_ok by blast
  from makeIso10664_3_miss [where h_hl = 0 and w = empty_world, OF e0 b] obtain w1 where
    i1: "makeIso10664_3 faceted_kernel sample_iso10664def Screw_init ''T20'' 3.0 0 empty_world
           = Inr (Pair 0 1, w1)"
    and i2: "length (heap w1) = 2" and i3: "Base_of w1 0 = (0, 0, 0)"
    by (auto simp: l0)
  have iw: "iso_world = w1" unfolding iso_world_def i1 by simp
  have i4: "makeIso10664_3 faceted_kernel sample_iso10664def Screw_init ''T20'' 3.0 0
              (set_Base 0 (0, 0, 5) w1) = Inr (Pair 0 1, set_Base 0 (0, 0, 5) w1)"
    by (rule makeIso10664_3_second_call [OF i1])
  have i5: "Base_of (set_Base 0 (0, 0, 5) w1) 0 = (0, 0, 5)"
    by (rule set_Base_Base_of) (simp add: i2)
  have fc: "Faces faceted_kernel s \<noteq> []" for s
    by (simp add: faceted_kernel_def upt_conv_Cons)
  have s0: "(3.0::real) \<noteq> 0" by simp
  obtain h0 h1 where ab: "makeAllen2_build faceted_kernel Screw_init 3.0 1.5 0.0 = Inr (h0, h1)"
    using makeAllen2_build_ok [OF s0 fc] by blast
  from makeAllen2_miss [where h_a = "2.0" and w = empty_world, OF e0 ab] obtain w2 where
    a1: "makeAllen2 faceted_kernel Screw_init 3.0 1.5 2.0 0.0 empty_world = Inr (Pair 0 1, w2)"
    and a2: "length (heap w2) = 2" and a3: "Base_of w2 0 = (0, 0, 2.0)"
    and a4: "FSCache w2 (''Allen2Tool'', [PyFloat 3.0, PyFloat 1.5, PyFloat 2.0, PyFloat 0.0])
               = Some (Pair 0 1)"
    by (auto simp: l0)
  have aw: "allen_world = w2" unfolding allen_world_def a1 by simp
  have a5: "FSCache (set_Base 0 (0, 0, 5) w2)
              (''Allen2Tool'', [PyFloat 3.0, PyFloat 1.5, PyFloat 2.0, PyFloat 0.0]) = Some (Pair 0 1)"
    by (simp only: set_Base_FSCache a4)
  have a6: "length (heap (set_Base 0 (0, 0, 5) w2)) = 2"
    by (simp add: set_Base_def a2)
  have a7: "(case makeAllen2 faceted_kernel Screw_init 3.0 1.5 2.0 0.0 (set_Base 0 (0, 0, 5) w2) of
         Inl err \<Rightarrow> False
       | Inr (c, w) \<Rightarrow> c = Pair 0 1 \<and> Base_of w 0 = (0, 0, 2.0)
                        \<and> length (heap w) = length (heap w2))"
    unfolding makeAllen2_hit [OF a5]
    by (simp add: set_Placement_Base_of set_Placement_length a6 a2)
  show ?thesis
    unfolding iw aw using i1 i3 i4 i5 a1 a3 a7 by (intro conjI)
qed

subsection \<open>The inner thread of a nut\<close>














end
